theory Spec2Isabelle
  imports Main "HOL-Library.Char_ord" "HOL-Library.List_Lexorder"
begin

section \<open>Python values, objects and the store\<close>

text \<open>
  The class \<open>Solver\<close> of \<open>src/minizinc/solver.py\<close> compares attribute values with
  \<open>is\<close>, so objects are kept in a store: an attribute holds a reference, and the store
  gives the value of the object behind it. Strings are sequences of code points below
  256. The values covered are the ones the annotated fields can hold (strings, integers,
  booleans, \<open>None\<close>, flat lists and tuples of these), driver objects, and opaque objects
  that are neither iterable nor JSON serialisable (an \<open>Instance\<close>, a typing alias, a
  result).
\<close>

type_synonym ref = nat

datatype scalar = SNone | SBool bool | SInt int | SStr string

datatype pyobj =
    Scalar scalar
  | PList "scalar list"
  | PTuple "scalar list"
  | SolverObject
  | Driver nat
  | Opaque nat

datatype pyerr =
    AttributeError
  | TypeError
  | LookupError string
  | OSError
  | FileExistsError
  | FileNotFoundError
  | Raised nat

datatype io_op = IoCreate string | IoWrite string | IoFlush string | IoSeek string | IoClose string

text \<open>
  The world a method runs in: the store \<open>heap\<close> with its allocation pointer, the instance
  dictionaries \<open>dicts\<close> of the solver objects, the module attribute
  \<open>minizinc.default_driver\<close>, and the file system as \<open>tempfile\<close> sees it: the files
  that exist with their flushed content, the directory and the random name parts that
  \<open>NamedTemporaryFile\<close> will try, the I/O operations attempted so far, and for the
  \<open>n\<close>-th attempted operation whether the operating system refuses it.
\<close>

record world =
  heap :: "ref \<Rightarrow> pyobj"
  next_ref :: ref
  dicts :: "ref \<Rightarrow> string \<rightharpoonup> ref"
  default_driver :: ref
  files :: "string \<rightharpoonup> string"
  tmpdir :: string
  tmp_names :: "string list"
  io_trace :: "io_op list"
  io_fails :: "nat \<Rightarrow> bool"

text \<open>The singletons \<open>None\<close>, \<open>False\<close> and \<open>True\<close>, and the two class attributes
  \<open>stdFlags = List[str]\<close> and \<open>extraFlags = List[str]\<close> (written with \<open>=\<close> in the class
  body, so they are class attributes, not annotations).\<close>

definition None_ref :: ref where "None_ref = 0"
definition False_ref :: ref where "False_ref = 1"
definition True_ref :: ref where "True_ref = 2"
definition List_str_ref :: ref where "List_str_ref = 3"

definition class_attrs :: "string \<rightharpoonup> ref" where
  "class_attrs = [''stdFlags'' \<mapsto> List_str_ref, ''extraFlags'' \<mapsto> List_str_ref]"

definition heap_ok :: "world \<Rightarrow> bool" where
  "heap_ok w \<longleftrightarrow>
     heap w None_ref = Scalar SNone \<and> heap w False_ref = Scalar (SBool False) \<and>
     heap w True_ref = Scalar (SBool True) \<and> heap w List_str_ref = Opaque 0 \<and>
     3 < next_ref w"

definition alloc :: "pyobj \<Rightarrow> world \<Rightarrow> ref \<times> world" where
  "alloc v w = (next_ref w, w\<lparr>heap := (heap w)(next_ref w := v), next_ref := Suc (next_ref w)\<rparr>)"

section \<open>Attribute access\<close>

text \<open>\<open>self.key\<close>: the instance dictionary first, then the class; \<open>AttributeError\<close>
  when neither has it. \<open>getattr(self, key, None)\<close> turns that error into the default.
  (The property \<open>id\<close> and the methods are never read through these two.)\<close>

definition getattr_raise :: "world \<Rightarrow> ref \<Rightarrow> string \<Rightarrow> pyerr + ref" where
  "getattr_raise w self key =
     (case dicts w self key of Some r \<Rightarrow> Inr r
      | None \<Rightarrow> (case class_attrs key of Some r \<Rightarrow> Inr r | None \<Rightarrow> Inl AttributeError))"

definition getattr_default :: "world \<Rightarrow> ref \<Rightarrow> string \<Rightarrow> ref \<Rightarrow> ref" where
  "getattr_default w self key dflt =
     (case getattr_raise w self key of Inr r \<Rightarrow> r | Inl e \<Rightarrow> dflt)"

text \<open>\<open>super().__setattr__(key, value)\<close>: \<open>id\<close> is a property without a setter, every
  other name is stored in the instance dictionary.\<close>

definition object_setattr :: "world \<Rightarrow> ref \<Rightarrow> string \<Rightarrow> ref \<Rightarrow> pyerr + world" where
  "object_setattr w self key v =
     (if key = ''id'' then Inl AttributeError
      else Inr (w\<lparr>dicts := (dicts w)(self := (dicts w self)(key \<mapsto> v))\<rparr>))"

definition tracked_keys :: "string list" where
  "tracked_keys = [''version'', ''executable'', ''mznlib'', ''tags'', ''stdFlags'', ''extraFlags'',
     ''supportsMzn'', ''supportsFzn'', ''needsSolns2Out'', ''needsMznExecutable'',
     ''needsStdlibDir'', ''isGUIApplication'']"

text \<open>\<open>Solver.__setattr__\<close>. The assignment \<open>self._id = None\<close> in its body is again a
  call of \<open>__setattr__\<close>, with a key that is not tracked.\<close>

function Solver_setattr :: "world \<Rightarrow> ref \<Rightarrow> string \<Rightarrow> ref \<Rightarrow> pyerr + world" where
  "Solver_setattr w self key v =
     (if key \<in> set tracked_keys \<and> getattr_default w self key None_ref \<noteq> v
      then (case Solver_setattr w self ''_id'' None_ref of
              Inl e \<Rightarrow> Inl e
            | Inr w1 \<Rightarrow> object_setattr w1 self key v)
      else object_setattr w self key v)"
  by pat_completeness auto
termination
  by (relation "measure (\<lambda>(w, self, key, v). if key \<in> set tracked_keys then 1 else 0)")
     (auto simp: tracked_keys_def)

section \<open>The effective identity\<close>

definition py_lower_char :: "char \<Rightarrow> char" where
  "py_lower_char c =
     (let n = (of_char c :: nat)
      in if (65 \<le> n \<and> n \<le> 90) \<or> (192 \<le> n \<and> n \<le> 222 \<and> n \<noteq> 215) then char_of (n + 32) else c)"

definition py_lower :: "string \<Rightarrow> string" where
  "py_lower s = map py_lower_char s"

text \<open>The property \<open>Solver.id\<close>. \<open>self.name.lower()\<close> needs a string.\<close>

definition Solver_id :: "world \<Rightarrow> ref \<Rightarrow> pyerr + pyobj" where
  "Solver_id w self =
     (case getattr_raise w self ''_id'' of
        Inl e \<Rightarrow> Inl e
      | Inr i \<Rightarrow>
          if i = None_ref then
            (case getattr_raise w self ''name'' of
               Inl e \<Rightarrow> Inl e
             | Inr n \<Rightarrow>
                 (case heap w n of
                    Scalar (SStr s) \<Rightarrow> Inr (Scalar (SStr (''org.minizinc.python.'' @ py_lower s)))
                  | _ \<Rightarrow> Inl AttributeError))
          else Inr (heap w i))"

section \<open>Serialisation\<close>

text \<open>\<open>str(i)\<close> for the scalar values, and \<open>sep.join(xs)\<close>.\<close>

definition digit_char :: "nat \<Rightarrow> char" where
  "digit_char d = char_of (48 + d)"

function str_of_nat :: "nat \<Rightarrow> string" where
  "str_of_nat n = (if n < 10 then [digit_char n] else str_of_nat (n div 10) @ [digit_char (n mod 10)])"
  by pat_completeness auto
termination
  by (relation "measure (\<lambda>n. n)") auto

definition str_of_int :: "int \<Rightarrow> string" where
  "str_of_int i = (if i < 0 then CHR ''-'' # str_of_nat (nat (- i)) else str_of_nat (nat i))"

fun py_str :: "scalar \<Rightarrow> string" where
  "py_str SNone = ''None''"
| "py_str (SBool b) = (if b then ''True'' else ''False'')"
| "py_str (SInt i) = str_of_int i"
| "py_str (SStr s) = s"

fun join_str :: "string \<Rightarrow> string list \<Rightarrow> string" where
  "join_str sep [] = []"
| "join_str sep [x] = x"
| "join_str sep (x # y # ys) = x @ sep @ join_str sep (y # ys)"

text \<open>\<open>[str(i) for i in self.version]\<close>: a tuple or a list gives its elements, a string
  its characters; nothing else modelled here is iterable.\<close>

fun version_parts :: "pyobj \<Rightarrow> pyerr + string list" where
  "version_parts (PTuple xs) = Inr (map py_str xs)"
| "version_parts (PList xs) = Inr (map py_str xs)"
| "version_parts (Scalar (SStr s)) = Inr (map (\<lambda>c. [c]) s)"
| "version_parts _ = Inl TypeError"

text \<open>\<open>json.dumps(info, sort_keys=True, indent=4)\<close>, with the defaults
  \<open>ensure_ascii=True\<close> and the separators \<open>','\<close> and \<open>': '\<close> that an indent selects.
  A string is escaped as \<open>json.encoder.py_encode_basestring_ascii\<close> does.\<close>

definition hex_char :: "nat \<Rightarrow> char" where
  "hex_char d = (if d < 10 then char_of (48 + d) else char_of (87 + d))"

definition json_escape_char :: "char \<Rightarrow> string" where
  "json_escape_char c =
     (let n = (of_char c :: nat)
      in if n = 34 then [CHR 0x5C, CHR 0x22]
         else if n = 92 then [CHR 0x5C, CHR 0x5C]
         else if n = 10 then [CHR 0x5C, CHR ''n'']
         else if n = 13 then [CHR 0x5C, CHR ''r'']
         else if n = 9 then [CHR 0x5C, CHR ''t'']
         else if n = 8 then [CHR 0x5C, CHR ''b'']
         else if n = 12 then [CHR 0x5C, CHR ''f'']
         else if 32 \<le> n \<and> n \<le> 126 then [c]
         else [CHR 0x5C, CHR ''u'', CHR ''0'', CHR ''0'', hex_char (n div 16), hex_char (n mod 16)])"

definition json_string :: "string \<Rightarrow> string" where
  "json_string s = CHR 0x22 # concat (map json_escape_char s) @ [CHR 0x22]"

fun json_scalar :: "scalar \<Rightarrow> string" where
  "json_scalar SNone = ''null''"
| "json_scalar (SBool b) = (if b then ''true'' else ''false'')"
| "json_scalar (SInt i) = str_of_int i"
| "json_scalar (SStr s) = json_string s"

definition newline_indent :: "nat \<Rightarrow> string" where
  "newline_indent level = CHR 0x0A # replicate (4 * level) CHR '' ''"

definition json_list :: "nat \<Rightarrow> scalar list \<Rightarrow> string" where
  "json_list level xs =
     (if xs = [] then ''[]''
      else ''['' @ newline_indent (level + 1)
           @ join_str ('','' @ newline_indent (level + 1)) (map json_scalar xs)
           @ newline_indent level @ '']'')"

fun json_value :: "nat \<Rightarrow> pyobj \<Rightarrow> pyerr + string" where
  "json_value level (Scalar s) = Inr (json_scalar s)"
| "json_value level (PList xs) = Inr (json_list level xs)"
| "json_value level (PTuple xs) = Inr (json_list level xs)"
| "json_value level SolverObject = Inl TypeError"
| "json_value level (Driver d) = Inl TypeError"
| "json_value level (Opaque k) = Inl TypeError"

fun json_items :: "(string \<times> pyobj) list \<Rightarrow> pyerr + string list" where
  "json_items [] = Inr []"
| "json_items ((k, v) # kvs) =
     (case json_value 1 v of
        Inl e \<Rightarrow> Inl e
      | Inr s \<Rightarrow>
          (case json_items kvs of
             Inl e \<Rightarrow> Inl e
           | Inr ss \<Rightarrow> Inr ((json_string k @ '': '' @ s) # ss)))"

definition json_dumps :: "(string \<times> pyobj) list \<Rightarrow> pyerr + string" where
  "json_dumps info =
     (if info = [] then Inr ''{}''
      else (case json_items (sort_key fst info) of
              Inl e \<Rightarrow> Inl e
            | Inr ss \<Rightarrow>
                Inr (''{'' @ newline_indent 1 @ join_str ('','' @ newline_indent 1) ss
                     @ newline_indent 0 @ ''}'')))"

text \<open>Reading \<open>self.key\<close> as a value.\<close>

definition attr_value :: "world \<Rightarrow> ref \<Rightarrow> string \<Rightarrow> pyerr + pyobj" where
  "attr_value w self key =
     (case getattr_raise w self key of Inl e \<Rightarrow> Inl e | Inr r \<Rightarrow> Inr (heap w r))"

text \<open>The dictionary \<open>info\<close> of \<open>Solver.to_json\<close>, its entries evaluated in the order
  of the source.\<close>

fun info_rest :: "world \<Rightarrow> ref \<Rightarrow> string list \<Rightarrow> pyerr + (string \<times> pyobj) list" where
  "info_rest w self [] = Inr []"
| "info_rest w self (k # ks) =
     (case attr_value w self k of
        Inl e \<Rightarrow> Inl e
      | Inr v \<Rightarrow>
          (case info_rest w self ks of
             Inl e \<Rightarrow> Inl e
           | Inr kvs \<Rightarrow> Inr ((k, v) # kvs)))"

definition to_json_info :: "world \<Rightarrow> ref \<Rightarrow> pyerr + (string \<times> pyobj) list" where
  "to_json_info w self =
     (case attr_value w self ''name'' of
        Inl e \<Rightarrow> Inl e
      | Inr nm \<Rightarrow>
     (case attr_value w self ''version'' of
        Inl e \<Rightarrow> Inl e
      | Inr ver \<Rightarrow>
     (case version_parts ver of
        Inl e \<Rightarrow> Inl e
      | Inr parts \<Rightarrow>
     (case Solver_id w self of
        Inl e \<Rightarrow> Inl e
      | Inr ident \<Rightarrow>
     (case info_rest w self [''executable'', ''mznlib'', ''tags'', ''stdFlags'', ''extraFlags'',
             ''supportsMzn'', ''supportsFzn'', ''needsSolns2Out'', ''needsMznExecutable'',
             ''needsStdlibDir'', ''isGUIApplication''] of
        Inl e \<Rightarrow> Inl e
      | Inr rest \<Rightarrow>
          Inr ((''name'', nm) # (''version'', Scalar (SStr (join_str ''.'' parts)))
               # (''id'', ident) # rest))))))"

definition to_json :: "world \<Rightarrow> ref \<Rightarrow> pyerr + string" where
  "to_json w self =
     (case to_json_info w self of Inl e \<Rightarrow> Inl e | Inr info \<Rightarrow> json_dumps info)"

section \<open>Construction\<close>

text \<open>\<open>re.search(r"(\d+)\.(\d+)\.(\d+)", version)\<close>: the leftmost position where the
  pattern matches. At a position the first two groups are whole runs of digits (a shorter
  run is followed by a digit, not by the dot), and the greedy third group is a whole run
  too. On code points below 256, \<open>\d\<close> is \<open>0\<close> to \<open>9\<close>.\<close>

definition is_digit :: "char \<Rightarrow> bool" where
  "is_digit c \<longleftrightarrow> 48 \<le> (of_char c :: nat) \<and> (of_char c :: nat) \<le> 57"

definition match_here :: "string \<Rightarrow> (string \<times> string \<times> string) option" where
  "match_here s =
     (let d1 = takeWhile is_digit s in
      if d1 = [] then None
      else (case dropWhile is_digit s of
              c1 # r1 \<Rightarrow>
                (let d2 = takeWhile is_digit r1 in
                 if c1 \<noteq> CHR ''.'' \<or> d2 = [] then None
                 else (case dropWhile is_digit r1 of
                         c2 # r2 \<Rightarrow>
                           (let d3 = takeWhile is_digit r2 in
                            if c2 \<noteq> CHR ''.'' \<or> d3 = [] then None
                            else Some (d1, d2, d3))
                       | [] \<Rightarrow> None))
            | [] \<Rightarrow> None))"

fun re_search :: "string \<Rightarrow> (string \<times> string \<times> string) option" where
  "re_search [] = match_here []"
| "re_search (c # cs) =
     (case match_here (c # cs) of Some g \<Rightarrow> Some g | None \<Rightarrow> re_search cs)"

text \<open>\<open>int(i)\<close> on a run of digits.\<close>

definition int_of_digits :: "string \<Rightarrow> int" where
  "int_of_digits ds = foldl (\<lambda>a c. 10 * a + (int (of_char c) - 48)) 0 ds"

text \<open>The two lines that parse the version: \<open>re.search\<close> wants a string, and
  \<open>match.groups()\<close> raises \<open>AttributeError\<close> when \<open>match\<close> is \<open>None\<close>.\<close>

definition parse_version :: "pyobj \<Rightarrow> pyerr + pyobj" where
  "parse_version v =
     (case v of
        Scalar (SStr s) \<Rightarrow>
          (case re_search s of
             None \<Rightarrow> Inl AttributeError
           | Some (a, b, c) \<Rightarrow>
               Inr (PTuple [SInt (int_of_digits a), SInt (int_of_digits b), SInt (int_of_digits c)]))
      | _ \<Rightarrow> Inl TypeError)"

definition ebind :: "'e + 'a \<Rightarrow> ('a \<Rightarrow> 'e + 'b) \<Rightarrow> 'e + 'b" where
  "ebind m f = (case m of Inl e \<Rightarrow> Inl e | Inr x \<Rightarrow> f x)"

text \<open>An assignment \<open>self.key = <fresh object>\<close>: the object is built, then stored.\<close>

definition set_new :: "ref \<Rightarrow> string \<Rightarrow> pyobj \<Rightarrow> world \<Rightarrow> pyerr + world" where
  "set_new self key v w = (case alloc v w of (r, w1) \<Rightarrow> Solver_setattr w1 self key r)"

text \<open>\<open>Solver.__init__\<close>, statement by statement.\<close>

definition Solver_init :: "world \<Rightarrow> ref \<Rightarrow> ref \<Rightarrow> ref \<Rightarrow> ref \<Rightarrow> ref \<Rightarrow> pyerr + world" where
  "Solver_init w self name version executable driver =
     (let driver1 = (if driver = None_ref then default_driver w else driver) in
      ebind (Solver_setattr w self ''driver'' driver1) (\<lambda>w.
      ebind (Solver_setattr w self ''name'' name) (\<lambda>w.
      ebind (Solver_setattr w self ''_id'' None_ref) (\<lambda>w.
      ebind (parse_version (heap w version)) (\<lambda>t.
      ebind (set_new self ''version'' t w) (\<lambda>w.
      ebind (Solver_setattr w self ''executable'' executable) (\<lambda>w.
      ebind (set_new self ''mznlib'' (Scalar (SStr [])) w) (\<lambda>w.
      ebind (set_new self ''tags'' (PList []) w) (\<lambda>w.
      ebind (set_new self ''stdFlags'' (PList []) w) (\<lambda>w.
      ebind (set_new self ''extraFlags'' (PList []) w) (\<lambda>w.
      ebind (Solver_setattr w self ''supportsMzn'' False_ref) (\<lambda>w.
      ebind (Solver_setattr w self ''supportsFzn'' True_ref) (\<lambda>w.
      ebind (Solver_setattr w self ''needsSolns2Out'' False_ref) (\<lambda>w.
      ebind (Solver_setattr w self ''needsMznExecutable'' False_ref) (\<lambda>w.
      ebind (Solver_setattr w self ''needsStdlibDir'' False_ref) (\<lambda>w.
      Solver_setattr w self ''isGUIApplication'' False_ref))))))))))))))))"

text \<open>\<open>Solver(name, version, executable, driver)\<close>: a new object with an empty instance
  dictionary, then \<open>__init__\<close>. A call without the driver argument passes the default
  \<open>None\<close>.\<close>

definition Solver_new :: "world \<Rightarrow> ref \<Rightarrow> ref \<Rightarrow> ref \<Rightarrow> ref \<Rightarrow> pyerr + (ref \<times> world)" where
  "Solver_new w name version executable driver =
     (case alloc SolverObject w of
        (self, w1) \<Rightarrow>
          ebind (Solver_init (w1\<lparr>dicts := (dicts w1)(self := Map.empty)\<rparr>) self name version
                   executable driver)
            (\<lambda>w2. Inr (self, w2)))"

section \<open>Temporary files\<close>

text \<open>
  \<open>tempfile.NamedTemporaryFile(prefix=..., suffix=...)\<close> as the library documents it:
  the name is directory, prefix, a random part and suffix, opened exclusively, so a
  candidate that exists is skipped, and \<open>FileExistsError\<close> is raised when no candidate
  is left. The file object buffers what is written until it is flushed. Every operation
  can be refused by the operating system, which raises \<open>OSError\<close>. Closing the file
  object closes the file and then unlinks its name, as \<open>tempfile\<close> does up to
  Python 3.11: when the file is no longer there, the unlink raises
  \<open>FileNotFoundError\<close>.
\<close>

record tmpfile =
  fpath :: string
  pending :: string

definition attempt :: "io_op \<Rightarrow> world \<Rightarrow> bool \<times> world" where
  "attempt op w = (io_fails w (length (io_trace w)), w\<lparr>io_trace := io_trace w @ [op]\<rparr>)"

definition tmp_path :: "world \<Rightarrow> string \<Rightarrow> string \<Rightarrow> string \<Rightarrow> string" where
  "tmp_path w pre suf nm = tmpdir w @ ''/'' @ pre @ nm @ suf"

fun first_free :: "world \<Rightarrow> string \<Rightarrow> string \<Rightarrow> string list \<Rightarrow> (string \<times> string list) option" where
  "first_free w pre suf [] = None"
| "first_free w pre suf (nm # nms) =
     (if files w (tmp_path w pre suf nm) = None then Some (nm, nms)
      else first_free w pre suf nms)"

definition NamedTemporaryFile :: "string \<Rightarrow> string \<Rightarrow> world \<Rightarrow> (pyerr + tmpfile) \<times> world" where
  "NamedTemporaryFile pre suf w =
     (case first_free w pre suf (tmp_names w) of
        None \<Rightarrow> (Inl FileExistsError, w\<lparr>tmp_names := []\<rparr>)
      | Some (nm, nms) \<Rightarrow>
          (let p = tmp_path w pre suf nm in
           case attempt (IoCreate p) (w\<lparr>tmp_names := nms\<rparr>) of
             (refused, w1) \<Rightarrow>
               if refused then (Inl OSError, w1)
               else (Inr \<lparr>fpath = p, pending = []\<rparr>, w1\<lparr>files := (files w1)(p \<mapsto> [])\<rparr>)))"

definition file_write :: "tmpfile \<Rightarrow> string \<Rightarrow> world \<Rightarrow> (pyerr + tmpfile) \<times> world" where
  "file_write f bs w =
     (case attempt (IoWrite (fpath f)) w of
        (refused, w1) \<Rightarrow>
          if refused then (Inl OSError, w1) else (Inr (f\<lparr>pending := pending f @ bs\<rparr>), w1))"

definition file_flush :: "tmpfile \<Rightarrow> world \<Rightarrow> (pyerr + tmpfile) \<times> world" where
  "file_flush f w =
     (case attempt (IoFlush (fpath f)) w of
        (refused, w1) \<Rightarrow>
          if refused then (Inl OSError, w1)
          else (Inr (f\<lparr>pending := []\<rparr>),
                w1\<lparr>files := (files w1)(fpath f \<mapsto>
                       (case files w1 (fpath f) of None \<Rightarrow> [] | Some old \<Rightarrow> old) @ pending f)\<rparr>))"

definition file_seek0 :: "tmpfile \<Rightarrow> world \<Rightarrow> (pyerr + tmpfile) \<times> world" where
  "file_seek0 f w =
     (case attempt (IoSeek (fpath f)) w of
        (refused, w1) \<Rightarrow> if refused then (Inl OSError, w1) else (Inr f, w1))"

definition file_close :: "tmpfile \<Rightarrow> world \<Rightarrow> (pyerr + unit) \<times> world" where
  "file_close f w =
     (case attempt (IoClose (fpath f)) w of
        (refused, w1) \<Rightarrow>
          if refused then (Inl OSError, w1)
          else if files w1 (fpath f) = None then (Inl FileNotFoundError, w1)
          else (Inr (), w1\<lparr>files := (files w1)(fpath f := None)\<rparr>))"

text \<open>\<open>str.encode()\<close>: UTF-8, one byte below 128 and two bytes from 128 to 255.\<close>

definition utf8_char :: "char \<Rightarrow> string" where
  "utf8_char c =
     (let n = (of_char c :: nat)
      in if n < 128 then [c] else [char_of (192 + n div 64), char_of (128 + n mod 64)])"

definition encode :: "string \<Rightarrow> string" where
  "encode s = concat (map utf8_char s)"

section \<open>Scoped materialisation\<close>

text \<open>
  \<open>Solver.configuration\<close> is a generator under \<open>contextlib.contextmanager\<close>. Entering
  the \<open>with\<close> statement runs it up to the \<open>yield\<close>; leaving the body, normally or by an
  exception, runs the \<open>finally\<close> block. \<open>configuration_enter\<close> returns the yielded
  reference and the local variable \<open>file\<close>; \<open>configuration_exit\<close> is the \<open>finally\<close>
  block: \<open>file.close()\<close> first, and \<open>self._id = None\<close> only when that returned.
  \<open>file.name\<close> is a string object holding the path. A file object that an
  exception leaves behind is not collected in this model.
\<close>

type_synonym 'a io = "world \<Rightarrow> (pyerr + 'a) \<times> world"

definition io_bind :: "'a io \<Rightarrow> ('a \<Rightarrow> 'b io) \<Rightarrow> 'b io" where
  "io_bind m f w = (case m w of (Inl e, w1) \<Rightarrow> (Inl e, w1) | (Inr x, w1) \<Rightarrow> f x w1)"

definition io_pure :: "(world \<Rightarrow> pyerr + 'a) \<Rightarrow> 'a io" where
  "io_pure g w = (case g w of Inl e \<Rightarrow> (Inl e, w) | Inr x \<Rightarrow> (Inr x, w))"

definition io_update :: "(world \<Rightarrow> pyerr + world) \<Rightarrow> unit io" where
  "io_update g w = (case g w of Inl e \<Rightarrow> (Inl e, w) | Inr w1 \<Rightarrow> (Inr (), w1))"

definition configuration_yield :: "ref \<Rightarrow> tmpfile option \<Rightarrow> (ref \<times> tmpfile option) io" where
  "configuration_yield self file =
     io_bind (io_pure (\<lambda>w. getattr_raise w self ''_id'')) (\<lambda>i w. (Inr (i, file), w))"

definition configuration_enter :: "ref \<Rightarrow> (ref \<times> tmpfile option) io" where
  "configuration_enter self =
     io_bind (io_pure (\<lambda>w. getattr_raise w self ''_id'')) (\<lambda>i.
       if i = None_ref then
         io_bind (NamedTemporaryFile ''minizinc_solver_'' ''.msc'') (\<lambda>f.
         io_bind (io_pure (\<lambda>w. to_json w self)) (\<lambda>js.
         io_bind (file_write f (encode js)) (\<lambda>f.
         io_bind (file_flush f) (\<lambda>f.
         io_bind (file_seek0 f) (\<lambda>f.
         io_bind (io_update (set_new self ''_id'' (Scalar (SStr (fpath f))))) (\<lambda>_.
         configuration_yield self (Some f)))))))
       else configuration_yield self None)"

definition configuration_exit :: "ref \<Rightarrow> tmpfile option \<Rightarrow> unit io" where
  "configuration_exit self file =
     (case file of
        None \<Rightarrow> (\<lambda>w. (Inr (), w))
      | Some f \<Rightarrow>
          io_bind (file_close f) (\<lambda>_.
          io_update (\<lambda>w. Solver_setattr w self ''_id'' None_ref)))"

text \<open>\<open>with solver.configuration() as y: body(y)\<close>. The body is any code: it gets the
  yielded reference, changes the world as it likes, and ends with a result or an
  exception, which the statement passes on after the \<open>finally\<close> block has run; an
  exception raised in the \<open>finally\<close> block takes its place.\<close>

definition with_configuration :: "ref \<Rightarrow> (ref \<Rightarrow> 'a io) \<Rightarrow> 'a io" where
  "with_configuration self body w =
     (case configuration_enter self w of
        (Inl e, w1) \<Rightarrow> (Inl e, w1)
      | (Inr (y, file), w1) \<Rightarrow>
          (case body y w1 of
             (r, w2) \<Rightarrow>
               (case configuration_exit self file w2 of
                  (Inl e, w3) \<Rightarrow> (Inl e, w3)
                | (Inr _, w3) \<Rightarrow> (r, w3))))"

section \<open>Solving\<close>

text \<open>
  The driver is a collaborator outside this class. What the solve method of driver
  \<open>d\<close> does with the arguments it receives is the parameter \<open>dsolve d\<close>; an object that
  is not a driver has no \<open>solve\<close> attribute.
\<close>

record call =
  call_solver :: ref
  call_instance :: ref
  call_args :: "ref list"
  call_kwargs :: "(string \<times> ref) list"

definition solve ::
  "(nat \<Rightarrow> call \<Rightarrow> ref io) \<Rightarrow> ref \<Rightarrow> ref \<Rightarrow> ref list \<Rightarrow> (string \<times> ref) list \<Rightarrow> ref io" where
  "solve dsolve self inst args kwargs w =
     (case getattr_raise w self ''driver'' of
        Inl e \<Rightarrow> (Inl e, w)
      | Inr d \<Rightarrow>
          if d \<noteq> None_ref then
            (case heap w d of
               Driver k \<Rightarrow>
                 dsolve k \<lparr>call_solver = self, call_instance = inst, call_args = args,
                           call_kwargs = kwargs\<rparr> w
             | _ \<Rightarrow> (Inl AttributeError, w))
          else (Inl (LookupError ''Solver is not linked to a MiniZinc driver''), w))"

section \<open>A sample world\<close>

text \<open>A store with a solver object at reference 5, constructed as
  \<open>Solver("Foo", "1.2.3", "/bin/foo")\<close> with driver 7 as the default driver, and some
  further objects: an instance (14), a second empty list (20), two more strings.\<close>

definition ex_heap :: "ref \<Rightarrow> pyobj" where
  "ex_heap r =
     (if r = 0 then Scalar SNone
      else if r = 1 then Scalar (SBool False)
      else if r = 2 then Scalar (SBool True)
      else if r = 3 then Opaque 0
      else if r = 5 then SolverObject
      else if r = 10 then Scalar (SStr ''Foo'')
      else if r = 11 then Scalar (SStr ''1.2.3'')
      else if r = 12 then Scalar (SStr ''/bin/foo'')
      else if r = 13 then Driver 7
      else if r = 14 then Opaque 1
      else if r = 15 then PTuple [SInt 1, SInt 2, SInt 3]
      else if r = 16 then Scalar (SStr [])
      else if r = 17 \<or> r = 18 \<or> r = 19 \<or> r = 20 then PList []
      else if r = 21 then Scalar (SStr ''org.example.foo'')
      else if r = 22 then Scalar (SStr ''/usr/bin/foo'')
      else if r = 23 then Scalar (SStr ''Gecode'')
      else if r = 24 then Scalar (SStr ''release 6.1.0 (beta)'')
      else if r = 25 then Scalar (SStr ''unknown'')
      else Opaque 2)"

definition ex_dict :: "string \<rightharpoonup> ref" where
  "ex_dict = [''driver'' \<mapsto> 13, ''name'' \<mapsto> 10, ''_id'' \<mapsto> 0, ''version'' \<mapsto> 15,
     ''executable'' \<mapsto> 12, ''mznlib'' \<mapsto> 16, ''tags'' \<mapsto> 17, ''stdFlags'' \<mapsto> 18,
     ''extraFlags'' \<mapsto> 19, ''supportsMzn'' \<mapsto> 1, ''supportsFzn'' \<mapsto> 2,
     ''needsSolns2Out'' \<mapsto> 1, ''needsMznExecutable'' \<mapsto> 1, ''needsStdlibDir'' \<mapsto> 1,
     ''isGUIApplication'' \<mapsto> 1]"

definition ex_world :: world where
  "ex_world = \<lparr>heap = ex_heap, next_ref = 30,
     dicts = (\<lambda>r. if r = 5 then ex_dict else Map.empty),
     default_driver = 13, files = Map.empty, tmpdir = ''/tmp'', tmp_names = [''k3x9_q2a''],
     io_trace = [], io_fails = (\<lambda>n. False)\<rparr>"

text \<open>The same solver with an explicit identity, and with no driver.\<close>

definition ex_world_id :: world where
  "ex_world_id = ex_world\<lparr>dicts := (\<lambda>r. if r = 5 then ex_dict(''_id'' \<mapsto> 21) else Map.empty)\<rparr>"

definition ex_world_nodriver :: world where
  "ex_world_nodriver = ex_world\<lparr>dicts := (\<lambda>r. if r = 5 then ex_dict(''driver'' \<mapsto> 0) else Map.empty)\<rparr>"

text \<open>A driver that records a run in the I/O trace and returns the instance it was given,
  except driver 9, which raises.\<close>

definition ex_dsolve :: "nat \<Rightarrow> call \<Rightarrow> ref io" where
  "ex_dsolve k c w =
     (if k = 9 then (Inl (Raised 1), w)
      else (Inr (call_instance c), w\<lparr>io_trace := io_trace w @ [IoCreate ''model.fzn'']\<rparr>))"

text \<open>The instance dictionary that \<open>__init__\<close> leaves, with \<open>n\<close> the first of the five
  objects it creates.\<close>

definition init_dict :: "(string \<rightharpoonup> ref) \<Rightarrow> ref \<Rightarrow> ref \<Rightarrow> ref \<Rightarrow> ref \<Rightarrow> (string \<rightharpoonup> ref)" where
  "init_dict m driver name executable n =
     m(''driver'' \<mapsto> driver, ''name'' \<mapsto> name, ''_id'' \<mapsto> None_ref, ''version'' \<mapsto> n,
       ''executable'' \<mapsto> executable, ''mznlib'' \<mapsto> n + 1, ''tags'' \<mapsto> n + 2,
       ''stdFlags'' \<mapsto> n + 3, ''extraFlags'' \<mapsto> n + 4, ''supportsMzn'' \<mapsto> False_ref,
       ''supportsFzn'' \<mapsto> True_ref, ''needsSolns2Out'' \<mapsto> False_ref,
       ''needsMznExecutable'' \<mapsto> False_ref, ''needsStdlibDir'' \<mapsto> False_ref,
       ''isGUIApplication'' \<mapsto> False_ref)"

text \<open>The world \<open>Solver(...)\<close> returns when the version parses to \<open>t\<close>.\<close>

definition constructed :: "world \<Rightarrow> ref \<Rightarrow> ref \<Rightarrow> ref \<Rightarrow> pyobj \<Rightarrow> world" where
  "constructed w name executable driver t =
     w\<lparr>heap := (heap w)(next_ref w := SolverObject, next_ref w + 1 := t,
                 next_ref w + 2 := Scalar (SStr []), next_ref w + 3 := PList [],
                 next_ref w + 4 := PList [], next_ref w + 5 := PList []),
       next_ref := next_ref w + 6,
       dicts := (dicts w)(next_ref w := init_dict Map.empty
                (if driver = None_ref then default_driver w else driver) name executable
                (next_ref w + 1))\<rparr>"

section \<open>The pattern, in the words of the specification\<close>

text \<open>A version string "contains a substring matching \<open>\d+\.\d+\.\d+\<close>": it splits into
  a prefix, three non-empty runs of digits separated by dots, and a rest.\<close>

definition is_number :: "string \<Rightarrow> bool" where
  "is_number d \<longleftrightarrow> d \<noteq> [] \<and> list_all is_digit d"

definition occurs :: "string \<Rightarrow> string \<Rightarrow> string \<Rightarrow> string \<Rightarrow> string \<Rightarrow> string \<Rightarrow> bool" where
  "occurs s pre d1 d2 d3 post \<longleftrightarrow>
     s = pre @ d1 @ ''.'' @ d2 @ ''.'' @ d3 @ post \<and> is_number d1 \<and> is_number d2 \<and> is_number d3"

definition contains_version :: "string \<Rightarrow> bool" where
  "contains_version s \<longleftrightarrow> (\<exists>pre d1 d2 d3 post. occurs s pre d1 d2 d3 post)"

text \<open>A triple of integers, and a sequence of assignments \<open>self.k = r\<close>.\<close>

definition is_int_triple :: "pyobj \<Rightarrow> bool" where
  "is_int_triple v =
     (case v of PTuple [SInt a, SInt b, SInt c] \<Rightarrow> True | _ \<Rightarrow> False)"

fun assign_all :: "world \<Rightarrow> ref \<Rightarrow> (string \<times> ref) list \<Rightarrow> pyerr + world" where
  "assign_all w self [] = Inr w"
| "assign_all w self ((k, r) # kvs) =
     (case Solver_setattr w self k r of Inl e \<Rightarrow> Inl e | Inr w1 \<Rightarrow> assign_all w1 self kvs)"

section \<open>The serialised document, in the words of the specification\<close>

text \<open>The data model of the specification: a configuration with its typed fields, the
  identity either set or unset.\<close>

record config =
  c_name :: string
  c_version :: "int \<times> int \<times> int"
  c_id :: "string option"
  c_executable :: string
  c_mznlib :: string
  c_tags :: "string list"
  c_stdFlags :: "string list"
  c_extraFlags :: "string list"
  c_supportsMzn :: bool
  c_supportsFzn :: bool
  c_needsSolns2Out :: bool
  c_needsMznExecutable :: bool
  c_needsStdlibDir :: bool
  c_isGUIApplication :: bool

text \<open>The solver object \<open>self\<close> of the world \<open>w\<close> holds the configuration \<open>c\<close>.\<close>

definition holds_config :: "world \<Rightarrow> ref \<Rightarrow> config \<Rightarrow> bool" where
  "holds_config w self c \<longleftrightarrow>
     attr_value w self ''name'' = Inr (Scalar (SStr (c_name c)))
     \<and> attr_value w self ''version''
         = Inr (PTuple [SInt (fst (c_version c)), SInt (fst (snd (c_version c))),
                        SInt (snd (snd (c_version c)))])
     \<and> (case dicts w self ''_id'' of
           None \<Rightarrow> False
         | Some r \<Rightarrow>
             (case c_id c of
                None \<Rightarrow> r = None_ref
              | Some i \<Rightarrow> r \<noteq> None_ref \<and> heap w r = Scalar (SStr i)))
     \<and> attr_value w self ''executable'' = Inr (Scalar (SStr (c_executable c)))
     \<and> attr_value w self ''mznlib'' = Inr (Scalar (SStr (c_mznlib c)))
     \<and> attr_value w self ''tags'' = Inr (PList (map SStr (c_tags c)))
     \<and> attr_value w self ''stdFlags'' = Inr (PList (map SStr (c_stdFlags c)))
     \<and> attr_value w self ''extraFlags'' = Inr (PList (map SStr (c_extraFlags c)))
     \<and> attr_value w self ''supportsMzn'' = Inr (Scalar (SBool (c_supportsMzn c)))
     \<and> attr_value w self ''supportsFzn'' = Inr (Scalar (SBool (c_supportsFzn c)))
     \<and> attr_value w self ''needsSolns2Out'' = Inr (Scalar (SBool (c_needsSolns2Out c)))
     \<and> attr_value w self ''needsMznExecutable'' = Inr (Scalar (SBool (c_needsMznExecutable c)))
     \<and> attr_value w self ''needsStdlibDir'' = Inr (Scalar (SBool (c_needsStdlibDir c)))
     \<and> attr_value w self ''isGUIApplication'' = Inr (Scalar (SBool (c_isGUIApplication c)))"

definition effective_id :: "config \<Rightarrow> string" where
  "effective_id c =
     (case c_id c of None \<Rightarrow> ''org.minizinc.python.'' @ py_lower (c_name c) | Some i \<Rightarrow> i)"

definition version_text :: "config \<Rightarrow> string" where
  "version_text c =
     str_of_int (fst (c_version c)) @ ''.'' @ str_of_int (fst (snd (c_version c)))
     @ ''.'' @ str_of_int (snd (snd (c_version c)))"

definition json_bool :: "bool \<Rightarrow> string" where
  "json_bool b = (if b then ''true'' else ''false'')"

definition json_strings :: "string list \<Rightarrow> string" where
  "json_strings xs =
     (if xs = [] then ''[]''
      else ''['' @ [CHR 0x0A] @ replicate 8 CHR '' ''
           @ join_str ('','' @ [CHR 0x0A] @ replicate 8 CHR '' '') (map json_string xs)
           @ [CHR 0x0A] @ replicate 4 CHR '' '' @ '']'')"

text \<open>The members of the JSON object, the keys in lexicographic order, each with its
  value as JSON text; and the document: one member per line, indented by four spaces,
  separated by commas.\<close>

definition document :: "config \<Rightarrow> (string \<times> string) list" where
  "document c =
     [(''executable'', json_string (c_executable c)),
      (''extraFlags'', json_strings (c_extraFlags c)),
      (''id'', json_string (effective_id c)),
      (''isGUIApplication'', json_bool (c_isGUIApplication c)),
      (''mznlib'', json_string (c_mznlib c)),
      (''name'', json_string (c_name c)),
      (''needsMznExecutable'', json_bool (c_needsMznExecutable c)),
      (''needsSolns2Out'', json_bool (c_needsSolns2Out c)),
      (''needsStdlibDir'', json_bool (c_needsStdlibDir c)),
      (''stdFlags'', json_strings (c_stdFlags c)),
      (''supportsFzn'', json_bool (c_supportsFzn c)),
      (''supportsMzn'', json_bool (c_supportsMzn c)),
      (''tags'', json_strings (c_tags c)),
      (''version'', json_string (version_text c))]"

definition serialize :: "config \<Rightarrow> string" where
  "serialize c =
     ''{'' @ [CHR 0x0A] @ replicate 4 CHR '' ''
     @ join_str ('','' @ [CHR 0x0A] @ replicate 4 CHR '' '')
         (map (\<lambda>(k, v). [CHR 0x22] @ k @ [CHR 0x22] @ '': '' @ v) (document c))
     @ [CHR 0x0A] @ ''}''"

text \<open>The configuration of the sample solver.\<close>

definition ex_config :: config where
  "ex_config = \<lparr>c_name = ''Foo'', c_version = (1, 2, 3), c_id = None,
     c_executable = ''/bin/foo'', c_mznlib = [], c_tags = [], c_stdFlags = [],
     c_extraFlags = [], c_supportsMzn = False, c_supportsFzn = True,
     c_needsSolns2Out = False, c_needsMznExecutable = False, c_needsStdlibDir = False,
     c_isGUIApplication = False\<rparr>"

text \<open>The world at the \<open>yield\<close> when a file was created: \<open>p\<close> is its path, \<open>js\<close> the
  serialised configuration, \<open>nms\<close> the random names left.\<close>

definition entered :: "world \<Rightarrow> ref \<Rightarrow> string \<Rightarrow> string \<Rightarrow> string list \<Rightarrow> world" where
  "entered w self p js nms =
     w\<lparr>heap := (heap w)(next_ref w := Scalar (SStr p)),
       next_ref := Suc (next_ref w),
       dicts := (dicts w)(self := (dicts w self)(''_id'' \<mapsto> next_ref w)),
       files := (files w)(p \<mapsto> encode js),
       tmp_names := nms,
       io_trace := io_trace w @ [IoCreate p, IoWrite p, IoFlush p, IoSeek p]\<rparr>"

text \<open>Two bodies for the \<open>with\<close> statement: one returns what was yielded, one changes
  the executable and then raises.\<close>

definition ex_body_ok :: "ref \<Rightarrow> ref io" where
  "ex_body_ok y w = (Inr y, w)"



text \<open>The solver \<open>Solver("Foo", "1.2.3", "/bin/foo")\<close> constructed in the sample
  world, and the world after \<open>solver.version = None\<close>.\<close>

definition ex_constructed :: world where
  "ex_constructed = constructed ex_world 10 12 None_ref (PTuple [SInt 1, SInt 2, SInt 3])"

definition ex_reassigned :: world where
  "ex_reassigned =
     ex_constructed\<lparr>dicts := (dicts ex_constructed)
        (30 := (dicts ex_constructed 30)(''_id'' \<mapsto> None_ref, ''version'' \<mapsto> None_ref))\<rparr>"

text \<open>The sample world with the second I/O operation (the write) refused.\<close>

definition ex_world_full :: world where
  "ex_world_full = ex_world\<lparr>io_fails := (\<lambda>n. n = 1)\<rparr>"


section \<open>Attribute writes\<close>

declare Solver_setattr.simps [simp del]

lemma Solver_setattr_untracked:
  "key \<notin> set tracked_keys \<Longrightarrow> Solver_setattr w self key v = object_setattr w self key v"
  by (simp add: Solver_setattr.simps)

lemma id_key_untracked:
  "''_id'' \<notin> set tracked_keys" "''id'' \<notin> set tracked_keys"
  "''name'' \<notin> set tracked_keys" "''driver'' \<notin> set tracked_keys"
  by (simp_all add: tracked_keys_def)

lemma Solver_setattr_id:
  "Solver_setattr w self ''_id'' v =
     Inr (w\<lparr>dicts := (dicts w)(self := (dicts w self)(''_id'' \<mapsto> v))\<rparr>)"
  by (simp add: Solver_setattr_untracked id_key_untracked object_setattr_def)

lemma Solver_setattr_tracked:
  assumes "key \<in> set tracked_keys"
  shows "Solver_setattr w self key v =
     Inr (w\<lparr>dicts := (dicts w)(self :=
        (if getattr_default w self key None_ref \<noteq> v
         then (dicts w self)(''_id'' \<mapsto> None_ref, key \<mapsto> v)
         else (dicts w self)(key \<mapsto> v)))\<rparr>)"
proof -
  have k: "key \<noteq> ''id''" using assms id_key_untracked by auto
  show ?thesis
    using assms k
    by (subst Solver_setattr.simps) (simp add: Solver_setattr_id object_setattr_def)
qed

lemma Solver_setattr_unset:
  assumes "dicts w self ''_id'' = Some None_ref" and "key \<noteq> ''id''"
  shows "Solver_setattr w self key v =
     Inr (w\<lparr>dicts := (dicts w)(self := (dicts w self)(key \<mapsto> v))\<rparr>)"
proof (cases "key \<in> set tracked_keys")
  case True
  have "(dicts w self)(''_id'' \<mapsto> None_ref) = dicts w self"
    using assms(1) by (rule map_upd_triv)
  then show ?thesis using True by (simp add: Solver_setattr_tracked)
next
  case False
  then show ?thesis using assms(2) by (simp add: Solver_setattr_untracked object_setattr_def)
qed

lemma getattr_default_stored:
  "dicts w self key = Some old \<Longrightarrow> getattr_default w self key d = old"
  by (simp add: getattr_default_def getattr_raise_def)

lemma getattr_raise_stored:
  "dicts w self key = Some r \<Longrightarrow> getattr_raise w self key = Inr r"
  by (simp add: getattr_raise_def)

lemma Solver_id_unset:
  assumes "dicts w self ''_id'' = Some None_ref" and "dicts w self ''name'' = Some n"
    and "heap w n = Scalar (SStr s)"
  shows "Solver_id w self = Inr (Scalar (SStr (''org.minizinc.python.'' @ py_lower s)))"
  using assms by (simp add: Solver_id_def getattr_raise_stored)

lemma Solver_id_set:
  assumes "dicts w self ''_id'' = Some i" and "i \<noteq> None_ref"
  shows "Solver_id w self = Inr (heap w i)"
  using assms by (simp add: Solver_id_def getattr_raise_stored)

lemmas ex_defs = ex_world_def ex_world_id_def ex_world_nodriver_def ex_dict_def ex_heap_def
  None_ref_def False_ref_def True_ref_def

text \<open>
  Claim C10. The attribute-write interceptor compares with \<open>is not\<close>: writing a tracked
  field clears a set identity whenever the new object is not the very object stored,
  whatever the two values are, so also when they are equal; the identity is kept exactly
  when the stored object itself is written back.
\<close>

theorem setattr_compares_identity:
  assumes "key \<in> set tracked_keys"
    and "dicts w self key = Some old"
    and "dicts w self ''_id'' = Some i"
  shows "\<exists>w'. Solver_setattr w self key v = Inr w'
           \<and> dicts w' self key = Some v
           \<and> (v \<noteq> old \<longrightarrow> dicts w' self ''_id'' = Some None_ref)
           \<and> (v = old \<longrightarrow> dicts w' self ''_id'' = Some i)
           \<and> (i \<noteq> None_ref \<and> dicts w' self ''_id'' = Some i \<longrightarrow> v = old)"
proof -
  have "key \<noteq> ''_id''" using assms(1) id_key_untracked by auto
  then show ?thesis
    using assms by (simp add: Solver_setattr_tracked getattr_default_stored)
qed

theorem setattr_compares_identity_witness:
  "''tags'' \<in> set tracked_keys \<and> dicts ex_world_id 5 ''tags'' = Some 17
   \<and> dicts ex_world_id 5 ''_id'' = Some 21 \<and> heap ex_world_id 20 = heap ex_world_id 17
   \<and> (\<exists>w'. Solver_setattr ex_world_id 5 ''tags'' 20 = Inr w' \<and> dicts w' 5 ''_id'' = Some None_ref)
   \<and> (\<exists>w'. Solver_setattr ex_world_id 5 ''tags'' 17 = Inr w' \<and> dicts w' 5 ''_id'' = Some 21)"
proof -
  have h: "''tags'' \<in> set tracked_keys" "dicts ex_world_id 5 ''tags'' = Some 17"
    "dicts ex_world_id 5 ''_id'' = Some 21" "heap ex_world_id 20 = heap ex_world_id 17"
    by (simp_all add: tracked_keys_def ex_defs)
  from setattr_compares_identity [OF h(1) h(2) h(3), of 20]
  have a: "\<exists>w'. Solver_setattr ex_world_id 5 ''tags'' 20 = Inr w' \<and> dicts w' 5 ''_id'' = Some None_ref"
    by auto
  from setattr_compares_identity [OF h(1) h(2) h(3), of 17]
  have b: "\<exists>w'. Solver_setattr ex_world_id 5 ''tags'' 17 = Inr w' \<and> dicts w' 5 ''_id'' = Some 21"
    by auto
  from h a b show ?thesis by blast
qed

section \<open>Construction and the effective identity\<close>


lemma Solver_init_ok:
  assumes "parse_version (heap w version) = Inr t"
  shows "Solver_init w self name version executable driver =
     Inr (w\<lparr>heap := (heap w)(next_ref w := t, next_ref w + 1 := Scalar (SStr []),
                 next_ref w + 2 := PList [], next_ref w + 3 := PList [], next_ref w + 4 := PList []),
             next_ref := next_ref w + 5,
             dicts := (dicts w)(self := init_dict (dicts w self)
                (if driver = None_ref then default_driver w else driver) name executable (next_ref w))\<rparr>)"
  using assms
  by (simp add: Solver_init_def ebind_def set_new_def alloc_def Solver_setattr_id
      Solver_setattr_unset Solver_setattr_untracked id_key_untracked object_setattr_def
      init_dict_def Let_def eval_nat_numeral)

lemma Solver_init_fail:
  assumes "parse_version (heap w version) = Inl e"
  shows "Solver_init w self name version executable driver = Inl e"
  using assms
  by (simp add: Solver_init_def ebind_def Solver_setattr_id
       Solver_setattr_untracked id_key_untracked object_setattr_def Let_def)

lemma Solver_new_ok:
  assumes "parse_version (((heap w)(next_ref w := SolverObject)) version) = Inr t"
  shows "Solver_new w name version executable driver =
           Inr (next_ref w, constructed w name executable driver t)"
  using assms
  by (simp add: Solver_new_def alloc_def Solver_init_ok ebind_def constructed_def eval_nat_numeral)

lemma Solver_new_fail:
  assumes "parse_version (((heap w)(next_ref w := SolverObject)) version) = Inl e"
  shows "Solver_new w name version executable driver = Inl e"
  using assms
  by (simp add: Solver_new_def alloc_def Solver_init_fail ebind_def)

lemma Solver_new_cases:
  assumes "Solver_new w name version executable driver = Inr (self, w')"
  obtains t where "parse_version (((heap w)(next_ref w := SolverObject)) version) = Inr t"
    and "self = next_ref w" and "w' = constructed w name executable driver t"
proof (cases "parse_version (((heap w)(next_ref w := SolverObject)) version)")
  case (Inl e)
  then show ?thesis using assms Solver_new_fail by fastforce
next
  case (Inr t)
  then show ?thesis using assms that Solver_new_ok by fastforce
qed

lemma constructed_dict:
  "dicts (constructed w name executable driver t) (next_ref w) ''name'' = Some name"
  "dicts (constructed w name executable driver t) (next_ref w) ''_id'' = Some None_ref"
  "dicts (constructed w name executable driver t) (next_ref w) ''driver'' =
     Some (if driver = None_ref then default_driver w else driver)"
  "dicts (constructed w name executable driver t) (next_ref w) ''version'' = Some (next_ref w + 1)"
  by (simp_all add: constructed_def init_dict_def)

lemma constructed_heap_old:
  "r < next_ref w \<Longrightarrow> heap (constructed w name executable driver t) r = heap w r"
  by (simp add: constructed_def)

lemma constructed_heap_version:
  "heap (constructed w name executable driver t) (next_ref w + 1) = t"
  by (simp add: constructed_def)

lemma lower_examples: "py_lower ''Gecode'' = ''gecode''" "py_lower ''Foo'' = ''foo''"
  by code_simp+

text \<open>
  Claim C4. The property \<open>id\<close> returns the stored identity when one is set, and
  otherwise \<open>"org.minizinc.python."\<close> followed by the lower-cased name; a configuration
  just constructed with the name \<open>"Gecode"\<close> has the identity
  \<open>"org.minizinc.python.gecode"\<close>. The property only reads: \<open>Solver_id\<close> returns no
  world. With the identity attribute present and, when it is unset, a string as name,
  the result is a value, not an error.
\<close>

theorem effective_identity:
  "(\<forall>i. dicts w self ''_id'' = Some i \<and> i \<noteq> None_ref \<longrightarrow> Solver_id w self = Inr (heap w i))
   \<and> (\<forall>n s. dicts w self ''_id'' = Some None_ref \<and> dicts w self ''name'' = Some n
          \<and> heap w n = Scalar (SStr s)
        \<longrightarrow> Solver_id w self = Inr (Scalar (SStr (''org.minizinc.python.'' @ py_lower s))))
   \<and> (\<forall>self' w'. heap w name = Scalar (SStr ''Gecode'') \<and> name < next_ref w
          \<and> Solver_new w name version executable driver = Inr (self', w')
        \<longrightarrow> Solver_id w' self' = Inr (Scalar (SStr ''org.minizinc.python.gecode'')))"
proof (intro conjI allI impI)
  fix i assume "dicts w self ''_id'' = Some i \<and> i \<noteq> None_ref"
  then show "Solver_id w self = Inr (heap w i)" by (simp add: Solver_id_set)
next
  fix n s
  assume "dicts w self ''_id'' = Some None_ref \<and> dicts w self ''name'' = Some n
          \<and> heap w n = Scalar (SStr s)"
  then show "Solver_id w self = Inr (Scalar (SStr (''org.minizinc.python.'' @ py_lower s)))"
    by (simp add: Solver_id_unset)
next
  fix self' w'
  assume a: "heap w name = Scalar (SStr ''Gecode'') \<and> name < next_ref w
          \<and> Solver_new w name version executable driver = Inr (self', w')"
  then obtain t where s: "self' = next_ref w" and w': "w' = constructed w name executable driver t"
    by (auto elim: Solver_new_cases)
  have "heap w' name = Scalar (SStr ''Gecode'')"
    using a w' by (simp add: constructed_heap_old)
  then have "Solver_id w' self' = Inr (Scalar (SStr (''org.minizinc.python.'' @ py_lower ''Gecode'')))"
    using s w' by (intro Solver_id_unset) (simp_all add: constructed_dict)
  then show "Solver_id w' self' = Inr (Scalar (SStr ''org.minizinc.python.gecode''))"
    by (simp add: lower_examples)
qed

lemma ex_parse: "parse_version (((heap ex_world)(next_ref ex_world := SolverObject)) 11)
   = Inr (PTuple [SInt 1, SInt 2, SInt 3])"
  by (simp add: ex_defs parse_version_def match_here_def is_digit_def int_of_digits_def)

theorem effective_identity_witness:
  "Solver_id ex_world_id 5 = Inr (Scalar (SStr ''org.example.foo''))
   \<and> Solver_id ex_world 5 = Inr (Scalar (SStr ''org.minizinc.python.foo''))
   \<and> heap ex_world 23 = Scalar (SStr ''Gecode'')
   \<and> (\<exists>self' w'. Solver_new ex_world 23 11 12 0 = Inr (self', w')
         \<and> Solver_id w' self' = Inr (Scalar (SStr ''org.minizinc.python.gecode'')))"
proof -
  have h1: "dicts ex_world_id 5 ''_id'' = Some 21 \<and> 21 \<noteq> None_ref"
    by (simp add: ex_defs)
  have h2: "dicts ex_world 5 ''_id'' = Some None_ref \<and> dicts ex_world 5 ''name'' = Some 10
      \<and> heap ex_world 10 = Scalar (SStr ''Foo'')"
    by (simp add: ex_defs)
  have h3: "heap ex_world 23 = Scalar (SStr ''Gecode'') \<and> 23 < next_ref ex_world"
    by (simp add: ex_defs)
  have n: "Solver_new ex_world 23 11 12 0
       = Inr (next_ref ex_world, constructed ex_world 23 12 0 (PTuple [SInt 1, SInt 2, SInt 3]))"
    by (rule Solver_new_ok [OF ex_parse])
  have a: "Solver_id ex_world_id 5 = Inr (Scalar (SStr ''org.example.foo''))"
    using effective_identity [of ex_world_id 5] h1 by (simp add: ex_defs)
  have b: "Solver_id ex_world 5 = Inr (Scalar (SStr ''org.minizinc.python.foo''))"
    using effective_identity [of ex_world 5] h2 by (simp add: lower_examples)
  have c: "Solver_id (constructed ex_world 23 12 0 (PTuple [SInt 1, SInt 2, SInt 3])) (next_ref ex_world)
       = Inr (Scalar (SStr ''org.minizinc.python.gecode''))"
    using effective_identity [of ex_world 5 23 11 12 0] h3 n by blast
  from a b c h3 n show ?thesis by blast
qed


text \<open>
  Claim C2. Writing one of the twelve configuration-affecting fields with an object whose
  value differs from the value stored clears the identity (it is \<open>None\<close> afterwards, and
  the effective identity is derived from the name again); writing \<open>name\<close> or \<open>driver\<close>
  leaves the identity as it was.
\<close>

theorem setattr_clears_identity:
  "(key \<in> {''version'', ''executable'', ''mznlib'', ''tags'', ''stdFlags'', ''extraFlags'',
            ''supportsMzn'', ''supportsFzn'', ''needsSolns2Out'', ''needsMznExecutable'',
            ''needsStdlibDir'', ''isGUIApplication''}
      \<and> dicts w self key = Some old \<and> heap w v \<noteq> heap w old
    \<longrightarrow> (\<exists>w'. Solver_setattr w self key v = Inr w' \<and> dicts w' self key = Some v
            \<and> dicts w' self ''_id'' = Some None_ref
            \<and> (\<forall>n s. dicts w self ''name'' = Some n \<and> heap w n = Scalar (SStr s)
                  \<longrightarrow> Solver_id w' self = Inr (Scalar (SStr (''org.minizinc.python.'' @ py_lower s))))))
   \<and> (key = ''name'' \<or> key = ''driver''
    \<longrightarrow> (\<exists>w'. Solver_setattr w self key v = Inr w' \<and> dicts w' self key = Some v
            \<and> dicts w' self ''_id'' = dicts w self ''_id''))"
proof (intro conjI impI)
  assume a: "key \<in> {''version'', ''executable'', ''mznlib'', ''tags'', ''stdFlags'', ''extraFlags'',
            ''supportsMzn'', ''supportsFzn'', ''needsSolns2Out'', ''needsMznExecutable'',
            ''needsStdlibDir'', ''isGUIApplication''}
      \<and> dicts w self key = Some old \<and> heap w v \<noteq> heap w old"
  then have k: "key \<in> set tracked_keys" by (simp add: tracked_keys_def)
  then have k': "key \<noteq> ''_id''" "key \<noteq> ''name''" using id_key_untracked by auto
  from a have ne: "v \<noteq> old" by auto
  define w' where "w' = w\<lparr>dicts := (dicts w)(self := (dicts w self)(''_id'' \<mapsto> None_ref, key \<mapsto> v))\<rparr>"
  have s: "Solver_setattr w self key v = Inr w'"
    using a k ne by (simp add: Solver_setattr_tracked getattr_default_stored w'_def)
  have d: "dicts w' self key = Some v" "dicts w' self ''_id'' = Some None_ref"
    "dicts w' self ''name'' = dicts w self ''name''" "heap w' = heap w"
    using k' by (simp_all add: w'_def)
  have "\<forall>n s. dicts w self ''name'' = Some n \<and> heap w n = Scalar (SStr s)
                  \<longrightarrow> Solver_id w' self = Inr (Scalar (SStr (''org.minizinc.python.'' @ py_lower s)))"
  proof (intro allI impI)
    fix n s
    assume "dicts w self ''name'' = Some n \<and> heap w n = Scalar (SStr s)"
    then have "dicts w' self ''name'' = Some n" "heap w' n = Scalar (SStr s)"
      using d(3,4) by auto
    with d(2) show "Solver_id w' self = Inr (Scalar (SStr (''org.minizinc.python.'' @ py_lower s)))"
      by (rule Solver_id_unset)
  qed
  with s d show "\<exists>w'. Solver_setattr w self key v = Inr w' \<and> dicts w' self key = Some v
            \<and> dicts w' self ''_id'' = Some None_ref
            \<and> (\<forall>n s. dicts w self ''name'' = Some n \<and> heap w n = Scalar (SStr s)
                  \<longrightarrow> Solver_id w' self = Inr (Scalar (SStr (''org.minizinc.python.'' @ py_lower s))))"
    by blast
next
  assume "key = ''name'' \<or> key = ''driver''"
  then show "\<exists>w'. Solver_setattr w self key v = Inr w' \<and> dicts w' self key = Some v
            \<and> dicts w' self ''_id'' = dicts w self ''_id''"
    by (auto simp: Solver_setattr_untracked id_key_untracked object_setattr_def)
qed

theorem setattr_clears_identity_witness:
  "dicts ex_world_id 5 ''executable'' = Some 12 \<and> heap ex_world_id 22 \<noteq> heap ex_world_id 12
   \<and> dicts ex_world_id 5 ''_id'' = Some 21
   \<and> (\<exists>w'. Solver_setattr ex_world_id 5 ''executable'' 22 = Inr w'
          \<and> dicts w' 5 ''_id'' = Some None_ref
          \<and> Solver_id w' 5 = Inr (Scalar (SStr ''org.minizinc.python.foo'')))
   \<and> (\<exists>w'. Solver_setattr ex_world_id 5 ''name'' 23 = Inr w' \<and> dicts w' 5 ''_id'' = Some 21)"
proof -
  have h: "dicts ex_world_id 5 ''executable'' = Some 12" "heap ex_world_id 22 \<noteq> heap ex_world_id 12"
     "dicts ex_world_id 5 ''_id'' = Some 21" "dicts ex_world_id 5 ''name'' = Some 10"
     "heap ex_world_id 10 = Scalar (SStr ''Foo'')"
    by (simp_all add: ex_defs)
  have a: "\<exists>w'. Solver_setattr ex_world_id 5 ''executable'' 22 = Inr w'
          \<and> dicts w' 5 ''_id'' = Some None_ref
          \<and> Solver_id w' 5 = Inr (Scalar (SStr ''org.minizinc.python.foo''))"
    using setattr_clears_identity [of "''executable''" ex_world_id 5 12 22] h
    by (auto simp: lower_examples)
  have b: "\<exists>w'. Solver_setattr ex_world_id 5 ''name'' 23 = Inr w' \<and> dicts w' 5 ''_id'' = Some 21"
    using setattr_clears_identity [of "''name''" ex_world_id 5 12 23] h by auto
  from h a b show ?thesis by blast
qed

text \<open>
  Claim C7. Without a driver, \<open>solve\<close> raises the lookup error and leaves the world as
  it is: nothing is written, no I/O is attempted. With a driver, \<open>solve\<close> is the
  driver's own solve applied to the solver itself, the instance and the extra positional
  and named arguments: the driver's result, its exception and its effects are passed on
  unchanged.
\<close>

theorem solve_forwards_to_driver:
  "(dicts w self ''driver'' = Some None_ref
      \<longrightarrow> solve dsolve self inst args kwargs w
            = (Inl (LookupError ''Solver is not linked to a MiniZinc driver''), w))
   \<and> (\<forall>d k. dicts w self ''driver'' = Some d \<and> d \<noteq> None_ref \<and> heap w d = Driver k
      \<longrightarrow> solve dsolve self inst args kwargs w
            = dsolve k \<lparr>call_solver = self, call_instance = inst, call_args = args,
                        call_kwargs = kwargs\<rparr> w)"
  by (simp add: solve_def getattr_raise_stored)

theorem solve_forwards_to_driver_witness:
  "solve ex_dsolve 5 14 [21] [(''timeout'', 22)] ex_world_nodriver
     = (Inl (LookupError ''Solver is not linked to a MiniZinc driver''), ex_world_nodriver)
   \<and> solve ex_dsolve 5 14 [21] [(''timeout'', 22)] ex_world
     = (Inr 14, ex_world\<lparr>io_trace := [IoCreate ''model.fzn'']\<rparr>)
   \<and> solve ex_dsolve 5 14 [] [] (ex_world\<lparr>heap := (heap ex_world)(13 := Driver 9)\<rparr>)
     = (Inl (Raised 1), ex_world\<lparr>heap := (heap ex_world)(13 := Driver 9)\<rparr>)"
proof -
  have h1: "dicts ex_world_nodriver 5 ''driver'' = Some None_ref"
    by (simp add: ex_defs)
  have h2: "dicts ex_world 5 ''driver'' = Some 13 \<and> 13 \<noteq> None_ref \<and> heap ex_world 13 = Driver 7"
    by (simp add: ex_defs)
  have h3: "dicts (ex_world\<lparr>heap := (heap ex_world)(13 := Driver 9)\<rparr>) 5 ''driver'' = Some 13
     \<and> 13 \<noteq> None_ref \<and> heap (ex_world\<lparr>heap := (heap ex_world)(13 := Driver 9)\<rparr>) 13 = Driver 9"
    by (simp add: ex_defs)
  have t: "io_trace ex_world = []" by (simp add: ex_defs)
  show ?thesis
    using solve_forwards_to_driver [of ex_world_nodriver 5 ex_dsolve 14 "[21]" "[(''timeout'', 22)]"] h1
      solve_forwards_to_driver [of ex_world 5 ex_dsolve 14 "[21]" "[(''timeout'', 22)]"] h2
      solve_forwards_to_driver [of "ex_world\<lparr>heap := (heap ex_world)(13 := Driver 9)\<rparr>" 5 ex_dsolve 14 "[]" "[]"] h3
    by (simp add: ex_dsolve_def t)
qed

text \<open>
  Claim C9. Constructed with no driver (the argument is \<open>None\<close>), the solver's driver
  field is \<open>minizinc.default_driver\<close>; its \<open>solve\<close> then raises the no-driver lookup
  error when that default is \<open>None\<close>, and otherwise goes on to the default driver.
\<close>

theorem default_driver_used:
  "\<forall>self w'. Solver_new w name version executable None_ref = Inr (self, w')
     \<longrightarrow> dicts w' self ''driver'' = Some (default_driver w)
       \<and> default_driver w' = default_driver w
       \<and> (default_driver w = None_ref
            \<longrightarrow> solve dsolve self inst args kwargs w'
                  = (Inl (LookupError ''Solver is not linked to a MiniZinc driver''), w'))
       \<and> (default_driver w \<noteq> None_ref
            \<longrightarrow> solve dsolve self inst args kwargs w'
                  = (case heap w' (default_driver w) of
                       Driver k \<Rightarrow> dsolve k \<lparr>call_solver = self, call_instance = inst,
                                     call_args = args, call_kwargs = kwargs\<rparr> w'
                     | _ \<Rightarrow> (Inl AttributeError, w')))"
proof (intro allI impI)
  fix self w'
  assume "Solver_new w name version executable None_ref = Inr (self, w')"
  then obtain t where s: "self = next_ref w" and w': "w' = constructed w name executable None_ref t"
    by (auto elim: Solver_new_cases)
  have d: "dicts w' self ''driver'' = Some (default_driver w)"
    using s w' by (simp add: constructed_dict)
  have dd: "default_driver w' = default_driver w" using w' by (simp add: constructed_def)
  show "dicts w' self ''driver'' = Some (default_driver w)
       \<and> default_driver w' = default_driver w
       \<and> (default_driver w = None_ref
            \<longrightarrow> solve dsolve self inst args kwargs w'
                  = (Inl (LookupError ''Solver is not linked to a MiniZinc driver''), w'))
       \<and> (default_driver w \<noteq> None_ref
            \<longrightarrow> solve dsolve self inst args kwargs w'
                  = (case heap w' (default_driver w) of
                       Driver k \<Rightarrow> dsolve k \<lparr>call_solver = self, call_instance = inst,
                                     call_args = args, call_kwargs = kwargs\<rparr> w'
                     | _ \<Rightarrow> (Inl AttributeError, w')))"
    using d dd by (simp add: solve_def getattr_raise_stored)
qed

theorem default_driver_used_witness:
  "\<exists>self w'. Solver_new ex_world 10 11 12 None_ref = Inr (self, w')
      \<and> dicts w' self ''driver'' = Some 13
      \<and> fst (solve ex_dsolve self 14 [] [] w') = Inr 14"
proof -
  have n: "Solver_new ex_world 10 11 12 None_ref
       = Inr (next_ref ex_world, constructed ex_world 10 12 None_ref (PTuple [SInt 1, SInt 2, SInt 3]))"
    by (rule Solver_new_ok [OF ex_parse])
  have h: "default_driver ex_world = 13" "(13::nat) \<noteq> None_ref"
    "heap (constructed ex_world 10 12 None_ref (PTuple [SInt 1, SInt 2, SInt 3])) 13 = Driver 7"
    by (simp_all add: ex_defs constructed_def)
  show ?thesis
    using default_driver_used [of ex_world 10 11 12 ex_dsolve 14 "[]" "[]"] n h
    by (auto simp: ex_dsolve_def)
qed

section \<open>Parsing the version\<close>

lemma dot_not_digit: "\<not> is_digit CHR ''.''"
  by (simp add: is_digit_def)

lemma takeWhile_number:
  "list_all is_digit d \<Longrightarrow> takeWhile is_digit (d @ CHR ''.'' # r) = d"
  by (simp add: list_all_iff dot_not_digit)

lemma dropWhile_number:
  "list_all is_digit d \<Longrightarrow> dropWhile is_digit (d @ CHR ''.'' # r) = CHR ''.'' # r"
  by (simp add: list_all_iff dot_not_digit)

lemma takeWhile_digits: "list_all is_digit (takeWhile is_digit s)"
  by (induction s) auto

lemma match_here_sound:
  assumes "match_here s = Some (d1, d2, d3)"
  shows "\<exists>post. occurs s [] d1 d2 d3 post \<and> (post = [] \<or> \<not> is_digit (hd post))"
proof -
  from assms obtain r1 r2 where
    d1: "d1 = takeWhile is_digit s" "d1 \<noteq> []" "dropWhile is_digit s = CHR ''.'' # r1"
    and d2: "d2 = takeWhile is_digit r1" "d2 \<noteq> []" "dropWhile is_digit r1 = CHR ''.'' # r2"
    and d3: "d3 = takeWhile is_digit r2" "d3 \<noteq> []"
    by (auto simp: match_here_def Let_def split: if_splits list.splits)
  have s: "s = d1 @ CHR ''.'' # r1"
    using takeWhile_dropWhile_id [of is_digit s] d1 by simp
  have r1: "r1 = d2 @ CHR ''.'' # r2"
    using takeWhile_dropWhile_id [of is_digit r1] d2 by simp
  have r2: "r2 = d3 @ dropWhile is_digit r2"
    using takeWhile_dropWhile_id [of is_digit r2] d3 by simp
  have p: "dropWhile is_digit r2 = [] \<or> \<not> is_digit (hd (dropWhile is_digit r2))"
    using hd_dropWhile [of is_digit r2] by blast
  have "s = [] @ d1 @ ''.'' @ d2 @ ''.'' @ d3 @ dropWhile is_digit r2"
    using s r1 r2 by simp
  moreover have "is_number d1" "is_number d2" "is_number d3"
    using d1 d2 d3 by (simp_all add: is_number_def takeWhile_digits)
  ultimately have "occurs s [] d1 d2 d3 (dropWhile is_digit r2)"
    unfolding occurs_def by blast
  with p show ?thesis by blast
qed

lemma match_here_complete:
  assumes "is_number d1" "is_number d2" "is_number d3"
  shows "match_here (d1 @ ''.'' @ d2 @ ''.'' @ d3 @ post) = Some (d1, d2, d3 @ takeWhile is_digit post)"
proof -
  have a: "list_all is_digit d1" "list_all is_digit d2" "list_all is_digit d3"
    "d1 \<noteq> []" "d2 \<noteq> []" "d3 \<noteq> []"
    using assms by (simp_all add: is_number_def)
  have t3: "takeWhile is_digit (d3 @ post) = d3 @ takeWhile is_digit post"
    using a(3) by (simp add: list_all_iff)
  show ?thesis
    using a t3 by (simp add: match_here_def takeWhile_number dropWhile_number Let_def)
qed

lemma re_search_None:
  "re_search s = None \<Longrightarrow> s = pre @ rest \<Longrightarrow> match_here rest = None"
proof (induction s arbitrary: pre)
  case Nil
  then show ?case by simp
next
  case (Cons c cs)
  from Cons.prems(1) have n: "match_here (c # cs) = None" "re_search cs = None"
    by (simp_all split: option.splits)
  show ?case
  proof (cases pre)
    case Nil
    then show ?thesis using Cons.prems(2) n(1) by simp
  next
    case (Cons p ps)
    then have "cs = ps @ rest" using Cons.prems(2) by simp
    then show ?thesis using Cons.IH n(2) by blast
  qed
qed

lemma re_search_Some:
  "re_search s = Some g \<Longrightarrow>
     \<exists>pre rest. s = pre @ rest \<and> match_here rest = Some g
        \<and> (\<forall>p' r'. s = p' @ r' \<and> length p' < length pre \<longrightarrow> match_here r' = None)"
proof (induction s)
  case Nil
  show ?case
    by (rule exI [where x = "[]"], rule exI [where x = "[]"]) (use Nil in simp)
next
  case (Cons c cs)
  show ?case
  proof (cases "match_here (c # cs)")
    case (Some g')
    then have "match_here (c # cs) = Some g" using Cons.prems by simp
    then show ?thesis
      by (intro exI [where x = "[]"] exI [where x = "c # cs"]) simp
  next
    case None
    then have "re_search cs = Some g" using Cons.prems by simp
    from Cons.IH [OF this] obtain pre rest where pr: "cs = pre @ rest" "match_here rest = Some g"
      "\<forall>p' r'. cs = p' @ r' \<and> length p' < length pre \<longrightarrow> match_here r' = None"
      by (elim exE conjE)
    have l: "\<forall>p' r'. c # cs = p' @ r' \<and> length p' < length (c # pre) \<longrightarrow> match_here r' = None"
    proof (intro allI impI)
      fix p' r'
      assume a: "c # cs = p' @ r' \<and> length p' < length (c # pre)"
      show "match_here r' = None"
      proof (cases p')
        case Nil
        then show ?thesis using a None by simp
      next
        case (Cons q qs)
        then have "cs = qs @ r' \<and> length qs < length pre" using a by simp
        with pr(3) show ?thesis by (elim allE [where x = qs] allE [where x = r']) simp
      qed
    qed
    have "c # cs = (c # pre) @ rest" using pr(1) by simp
    with pr(2) l show ?thesis
      by (intro exI [where x = "c # pre"] exI [where x = rest] conjI)
  qed
qed

lemma contains_version_iff: "contains_version s \<longleftrightarrow> re_search s \<noteq> None"
proof
  assume "contains_version s"
  then obtain pre d1 d2 d3 post where o: "occurs s pre d1 d2 d3 post"
    by (auto simp: contains_version_def)
  then have m: "match_here (d1 @ ''.'' @ d2 @ ''.'' @ d3 @ post) \<noteq> None"
    using match_here_complete [of d1 d2 d3 post] by (simp add: occurs_def)
  have d: "s = pre @ (d1 @ ''.'' @ d2 @ ''.'' @ d3 @ post)"
    using o by (simp add: occurs_def)
  show "re_search s \<noteq> None"
  proof
    assume "re_search s = None"
    from re_search_None [OF this d] m show False by contradiction
  qed
next
  assume "re_search s \<noteq> None"
  then obtain d1 d2 d3 where "re_search s = Some (d1, d2, d3)" by auto
  from re_search_Some [OF this] obtain pre rest
    where "s = pre @ rest" "match_here rest = Some (d1, d2, d3)"
    by (elim exE conjE)
  then obtain post where "occurs s pre d1 d2 d3 post"
    using match_here_sound [of rest d1 d2 d3] by (auto simp: occurs_def)
  then show "contains_version s" unfolding contains_version_def by (intro exI)
qed

text \<open>The match that \<open>re.search\<close> returns is the leftmost one, its last group as long as
  the digits go.\<close>

lemma re_search_leftmost:
  assumes "re_search s = Some (d1, d2, d3)"
  shows "\<exists>pre post. occurs s pre d1 d2 d3 post \<and> (post = [] \<or> \<not> is_digit (hd post))
          \<and> (\<forall>pre' e1 e2 e3 post'. occurs s pre' e1 e2 e3 post' \<longrightarrow> length pre \<le> length pre')"
proof -
  from re_search_Some [OF assms] obtain pre rest
    where pr: "s = pre @ rest" "match_here rest = Some (d1, d2, d3)"
    "\<forall>p' r'. s = p' @ r' \<and> length p' < length pre \<longrightarrow> match_here r' = None"
    by (elim exE conjE)
  from match_here_sound [OF pr(2)] obtain post
    where po: "occurs rest [] d1 d2 d3 post" "post = [] \<or> \<not> is_digit (hd post)"
    by (elim exE conjE)
  have o: "occurs s pre d1 d2 d3 post"
    using po(1) pr(1) by (simp add: occurs_def)
  have "\<forall>pre' e1 e2 e3 post'. occurs s pre' e1 e2 e3 post' \<longrightarrow> length pre \<le> length pre'"
  proof (intro allI impI)
    fix pre' e1 e2 e3 post'
    assume a: "occurs s pre' e1 e2 e3 post'"
    then have m: "match_here (e1 @ ''.'' @ e2 @ ''.'' @ e3 @ post') \<noteq> None"
      using match_here_complete [of e1 e2 e3 post'] by (simp add: occurs_def)
    have d: "s = pre' @ (e1 @ ''.'' @ e2 @ ''.'' @ e3 @ post')"
      using a by (simp add: occurs_def)
    show "length pre \<le> length pre'"
    proof (rule ccontr)
      assume "\<not> length pre \<le> length pre'"
      then have "length pre' < length pre" by simp
      with pr(3) d have "match_here (e1 @ ''.'' @ e2 @ ''.'' @ e3 @ post') = None"
        by (elim allE [where x = pre'] allE [where x = "e1 @ ''.'' @ e2 @ ''.'' @ e3 @ post'"]) simp
      with m show False by contradiction
    qed
  qed
  with o po(2) show ?thesis
    by (intro exI [where x = pre] exI [where x = post] conjI)
qed

lemma int_of_digits_nonneg_aux:
  "list_all is_digit ds \<Longrightarrow> 0 \<le> a \<Longrightarrow> 0 \<le> foldl (\<lambda>a c. 10 * a + (int (of_char c) - 48)) a ds"
proof (induction ds arbitrary: a)
  case Nil
  then show ?case by simp
next
  case (Cons d ds)
  then have "0 \<le> 10 * a + (int (of_char d) - 48)" by (simp add: is_digit_def)
  then show ?case using Cons by simp
qed

lemma int_of_digits_nonneg: "is_number d \<Longrightarrow> 0 \<le> int_of_digits d"
  by (simp add: is_number_def int_of_digits_def int_of_digits_nonneg_aux)

lemma attr_value_stored:
  "dicts w self key = Some r \<Longrightarrow> attr_value w self key = Inr (heap w r)"
  by (simp add: attr_value_def getattr_raise_stored)

lemma Solver_setattr_effect:
  assumes "Solver_setattr w self k r = Inr w1"
  shows "heap w1 = heap w
    \<and> dicts w1 self ''version'' = (if k = ''version'' then Some r else dicts w self ''version'')"
proof (cases "k \<in> set tracked_keys")
  case True
  then show ?thesis using assms
    by (auto simp: Solver_setattr_tracked split: if_splits)
next
  case False
  then have "k \<noteq> ''version''" by (auto simp: tracked_keys_def)
  then show ?thesis using assms False
    by (auto simp: Solver_setattr_untracked object_setattr_def split: if_splits)
qed

lemma assign_all_version:
  assumes "assign_all w self kvs = Inr w2"
    and "dicts w self ''version'' = Some r0" and "is_int_triple (heap w r0)"
    and "\<forall>(k, r) \<in> set kvs. k = ''version'' \<longrightarrow> is_int_triple (heap w r)"
  shows "heap w2 = heap w \<and> (\<exists>r. dicts w2 self ''version'' = Some r \<and> is_int_triple (heap w r))"
  using assms
proof (induction kvs arbitrary: w r0)
  case Nil
  then show ?case by simp
next
  case (Cons kv kvs)
  obtain k r where kv: "kv = (k, r)" by (cases kv)
  from Cons.prems(1) kv obtain w1 where w1: "Solver_setattr w self k r = Inr w1"
    "assign_all w1 self kvs = Inr w2"
    by (auto split: sum.splits)
  from Solver_setattr_effect [OF w1(1)] have e: "heap w1 = heap w"
    "dicts w1 self ''version'' = (if k = ''version'' then Some r else dicts w self ''version'')"
    by simp_all
  have t: "k = ''version'' \<longrightarrow> is_int_triple (heap w r)"
    using Cons.prems(4) kv by simp
  obtain r1 where r1: "dicts w1 self ''version'' = Some r1" "is_int_triple (heap w1 r1)"
    using e t Cons.prems(2,3) by (cases "k = ''version''") simp_all
  have a: "\<forall>(k, r) \<in> set kvs. k = ''version'' \<longrightarrow> is_int_triple (heap w1 r)"
    using Cons.prems(4) e(1) by simp
  from Cons.IH [OF w1(2) r1 a] show ?case using e(1) by simp
qed


lemma Solver_new_parsed:
  assumes "heap w version = Scalar (SStr s)" and "version < next_ref w"
    and "re_search s = Some (d1, d2, d3)"
  shows "Solver_new w name version executable driver =
     Inr (next_ref w, constructed w name executable driver
        (PTuple [SInt (int_of_digits d1), SInt (int_of_digits d2), SInt (int_of_digits d3)]))"
  using assms by (intro Solver_new_ok) (simp add: parse_version_def)

lemma Solver_new_unparsed:
  assumes "heap w version = Scalar (SStr s)" and "version < next_ref w"
    and "re_search s = None"
  shows "Solver_new w name version executable driver = Inl AttributeError"
  using assms by (intro Solver_new_fail) (simp add: parse_version_def)

lemma constructed_heap_version_Suc:
  "heap (constructed w name executable driver t) (Suc (next_ref w)) = t"
  using constructed_heap_version [of w name executable driver t] by simp

lemma constructed_version:
  "attr_value (constructed w name executable driver t) (next_ref w) ''version'' = Inr t"
  by (simp add: attr_value_stored constructed_dict constructed_heap_version_Suc)

lemma is_int_triple_ints: "is_int_triple (PTuple [SInt a, SInt b, SInt c])"
  by (simp add: is_int_triple_def)

text \<open>
  Claim C8, as amended. When the version string contains a substring of the form digits, dot, digits,
  dot, digits, construction succeeds and stores as \<open>version\<close> the triple of integers of
  one such substring: the leftmost one, its last run of digits taken whole. The three
  components are non-negative. The class validates no write, so the field stays a triple
  of integers only as long as every later assignment to \<open>version\<close> is itself a triple of
  integers.
  When the string contains no such substring, construction fails (with the
  \<open>AttributeError\<close> of \<open>None.groups()\<close>).
\<close>

theorem version_parsed:
  assumes "heap w version = Scalar (SStr s)" and "version < next_ref w"
  shows "(contains_version s \<longrightarrow>
       (\<exists>self w' pre d1 d2 d3 post.
           Solver_new w name version executable driver = Inr (self, w')
         \<and> occurs s pre d1 d2 d3 post
         \<and> (post = [] \<or> \<not> is_digit (hd post))
         \<and> (\<forall>pre' e1 e2 e3 post'. occurs s pre' e1 e2 e3 post' \<longrightarrow> length pre \<le> length pre')
         \<and> attr_value w' self ''version''
             = Inr (PTuple [SInt (int_of_digits d1), SInt (int_of_digits d2), SInt (int_of_digits d3)])
         \<and> 0 \<le> int_of_digits d1 \<and> 0 \<le> int_of_digits d2 \<and> 0 \<le> int_of_digits d3
         \<and> (\<forall>kvs w2. assign_all w' self kvs = Inr w2
                 \<and> (\<forall>(k, r) \<in> set kvs. k = ''version'' \<longrightarrow> is_int_triple (heap w' r))
               \<longrightarrow> (\<exists>v. attr_value w2 self ''version'' = Inr v \<and> is_int_triple v))))
    \<and> (\<not> contains_version s \<longrightarrow>
          Solver_new w name version executable driver = Inl AttributeError)"
proof (intro conjI impI)
  assume "contains_version s"
  then obtain d1 d2 d3 where r: "re_search s = Some (d1, d2, d3)"
    by (auto simp: contains_version_iff)
  from re_search_leftmost [OF r] obtain pre post where
    o: "occurs s pre d1 d2 d3 post" "post = [] \<or> \<not> is_digit (hd post)"
      "\<forall>pre' e1 e2 e3 post'. occurs s pre' e1 e2 e3 post' \<longrightarrow> length pre \<le> length pre'"
    by (elim exE conjE)
  define t where "t = PTuple [SInt (int_of_digits d1), SInt (int_of_digits d2), SInt (int_of_digits d3)]"
  define w' where "w' = constructed w name executable driver t"
  have n: "Solver_new w name version executable driver = Inr (next_ref w, w')"
    unfolding w'_def t_def by (rule Solver_new_parsed [OF assms r])
  have v: "attr_value w' (next_ref w) ''version'' = Inr t"
    unfolding w'_def by (rule constructed_version)
  have nn: "0 \<le> int_of_digits d1" "0 \<le> int_of_digits d2" "0 \<le> int_of_digits d3"
    using o(1) by (simp_all add: occurs_def int_of_digits_nonneg)
  have d: "dicts w' (next_ref w) ''version'' = Some (next_ref w + 1)"
    "is_int_triple (heap w' (next_ref w + 1))"
    unfolding w'_def by (simp_all add: constructed_dict constructed_heap_version_Suc t_def is_int_triple_ints)
  have inv: "\<forall>kvs w2. assign_all w' (next_ref w) kvs = Inr w2
                 \<and> (\<forall>(k, r) \<in> set kvs. k = ''version'' \<longrightarrow> is_int_triple (heap w' r))
               \<longrightarrow> (\<exists>v. attr_value w2 (next_ref w) ''version'' = Inr v \<and> is_int_triple v)"
  proof (intro allI impI)
    fix kvs w2
    assume a: "assign_all w' (next_ref w) kvs = Inr w2
                 \<and> (\<forall>(k, r) \<in> set kvs. k = ''version'' \<longrightarrow> is_int_triple (heap w' r))"
    then have a1: "assign_all w' (next_ref w) kvs = Inr w2"
      and a2: "\<forall>(k, r) \<in> set kvs. k = ''version'' \<longrightarrow> is_int_triple (heap w' r)"
      by simp_all
    from assign_all_version [OF a1 d a2] obtain r where
      "heap w2 = heap w'" "dicts w2 (next_ref w) ''version'' = Some r" "is_int_triple (heap w' r)"
      by (elim exE conjE)
    then have "attr_value w2 (next_ref w) ''version'' = Inr (heap w' r) \<and> is_int_triple (heap w' r)"
      by (simp add: attr_value_stored)
    then show "\<exists>v. attr_value w2 (next_ref w) ''version'' = Inr v \<and> is_int_triple v"
      by (intro exI)
  qed
  from n o v nn inv
  show "\<exists>self w' pre d1 d2 d3 post.
           Solver_new w name version executable driver = Inr (self, w')
         \<and> occurs s pre d1 d2 d3 post
         \<and> (post = [] \<or> \<not> is_digit (hd post))
         \<and> (\<forall>pre' e1 e2 e3 post'. occurs s pre' e1 e2 e3 post' \<longrightarrow> length pre \<le> length pre')
         \<and> attr_value w' self ''version''
             = Inr (PTuple [SInt (int_of_digits d1), SInt (int_of_digits d2), SInt (int_of_digits d3)])
         \<and> 0 \<le> int_of_digits d1 \<and> 0 \<le> int_of_digits d2 \<and> 0 \<le> int_of_digits d3
         \<and> (\<forall>kvs w2. assign_all w' self kvs = Inr w2
                 \<and> (\<forall>(k, r) \<in> set kvs. k = ''version'' \<longrightarrow> is_int_triple (heap w' r))
               \<longrightarrow> (\<exists>v. attr_value w2 self ''version'' = Inr v \<and> is_int_triple v))"
    unfolding t_def
    by (intro exI [where x = "next_ref w"] exI [where x = w'] exI [where x = pre]
        exI [where x = d1] exI [where x = d2] exI [where x = d3] exI [where x = post] conjI)
next
  assume "\<not> contains_version s"
  then have "re_search s = None" unfolding contains_version_iff by blast
  then show "Solver_new w name version executable driver = Inl AttributeError"
    by (rule Solver_new_unparsed [OF assms])
qed

lemma ex_searches:
  "re_search ''release 6.1.0 (beta)'' = Some (''6'', ''1'', ''0'')"
  "re_search ''unknown'' = None"
  by code_simp+

lemma ex_digits: "int_of_digits ''6'' = 6" "int_of_digits ''1'' = 1" "int_of_digits ''0'' = 0"
  by code_simp+

theorem version_parsed_witness:
  "heap ex_world 24 = Scalar (SStr ''release 6.1.0 (beta)'') \<and> 24 < next_ref ex_world
   \<and> contains_version ''release 6.1.0 (beta)''
   \<and> (\<exists>self w' pre d1 d2 d3 post.
           Solver_new ex_world 10 24 12 0 = Inr (self, w')
         \<and> occurs ''release 6.1.0 (beta)'' pre d1 d2 d3 post
         \<and> attr_value w' self ''version''
             = Inr (PTuple [SInt (int_of_digits d1), SInt (int_of_digits d2), SInt (int_of_digits d3)]))
   \<and> (\<exists>self w'. Solver_new ex_world 10 24 12 0 = Inr (self, w')
         \<and> attr_value w' self ''version'' = Inr (PTuple [SInt 6, SInt 1, SInt 0]))
   \<and> heap ex_world 25 = Scalar (SStr ''unknown'') \<and> 25 < next_ref ex_world
   \<and> \<not> contains_version ''unknown''
   \<and> Solver_new ex_world 10 25 12 0 = Inl AttributeError"
proof -
  have h: "heap ex_world 24 = Scalar (SStr ''release 6.1.0 (beta)'')" "24 < next_ref ex_world"
    "heap ex_world 25 = Scalar (SStr ''unknown'')" "25 < next_ref ex_world"
    by (simp_all add: ex_defs)
  have c: "contains_version ''release 6.1.0 (beta)''" "\<not> contains_version ''unknown''"
    unfolding contains_version_iff ex_searches by simp_all
  have a: "\<exists>self w' pre d1 d2 d3 post.
           Solver_new ex_world 10 24 12 0 = Inr (self, w')
         \<and> occurs ''release 6.1.0 (beta)'' pre d1 d2 d3 post
         \<and> attr_value w' self ''version''
             = Inr (PTuple [SInt (int_of_digits d1), SInt (int_of_digits d2), SInt (int_of_digits d3)])"
    using version_parsed [OF h(1) h(2), of 10 12 0] c(1) by fast
  have b: "Solver_new ex_world 10 25 12 0 = Inl AttributeError"
    using version_parsed [OF h(3) h(4), of 10 12 0] c(2) by simp
  have n: "Solver_new ex_world 10 24 12 0 = Inr (next_ref ex_world,
      constructed ex_world 10 12 0 (PTuple [SInt 6, SInt 1, SInt 0]))"
    using Solver_new_parsed [OF h(1) h(2) ex_searches(1), of 10 12 0] by (simp add: ex_digits)
  have d: "\<exists>self w'. Solver_new ex_world 10 24 12 0 = Inr (self, w')
         \<and> attr_value w' self ''version'' = Inr (PTuple [SInt 6, SInt 1, SInt 0])"
    using n constructed_version by (intro exI conjI)
  from h c a b d show ?thesis by (intro conjI)
qed

text \<open>
  The claim as first stated fails in its last part: the version does not always keep
  three integer components. After \<open>Solver("Foo", "1.2.3", "/bin/foo")\<close> in the sample
  world the assignment \<open>solver.version = None\<close> is accepted, and the field is \<open>None\<close>.
\<close>

theorem version_not_kept:
  "Solver_new ex_world 10 11 12 None_ref = Inr (30, ex_constructed)
   \<and> attr_value ex_constructed 30 ''version'' = Inr (PTuple [SInt 1, SInt 2, SInt 3])
   \<and> Solver_setattr ex_constructed 30 ''version'' None_ref = Inr ex_reassigned
   \<and> attr_value ex_reassigned 30 ''version'' = Inr (Scalar SNone)
   \<and> \<not> is_int_triple (Scalar SNone)"
proof -
  have n30: "next_ref ex_world = 30" by (simp add: ex_defs)
  have a: "Solver_new ex_world 10 11 12 None_ref = Inr (30, ex_constructed)"
    using Solver_new_ok [OF ex_parse, of 10 12 None_ref] by (simp add: n30 ex_constructed_def)
  have b: "attr_value ex_constructed 30 ''version'' = Inr (PTuple [SInt 1, SInt 2, SInt 3])"
    using constructed_version [of ex_world 10 12 None_ref "PTuple [SInt 1, SInt 2, SInt 3]"]
    by (simp add: n30 ex_constructed_def)
  have v: "dicts ex_constructed 30 ''version'' = Some 31"
    using constructed_dict(4) [of ex_world 10 12 None_ref "PTuple [SInt 1, SInt 2, SInt 3]"]
    by (simp add: n30 ex_constructed_def)
  have c: "Solver_setattr ex_constructed 30 ''version'' None_ref = Inr ex_reassigned"
    using v by (simp add: Solver_setattr_tracked tracked_keys_def getattr_default_stored
        None_ref_def ex_reassigned_def)
  have h: "heap ex_reassigned None_ref = Scalar SNone"
    by (simp add: ex_reassigned_def ex_constructed_def constructed_def ex_defs)
  have d: "attr_value ex_reassigned 30 ''version'' = Inr (Scalar SNone)"
    using attr_value_stored [of ex_reassigned 30 "''version''" None_ref] h
    by (simp add: ex_reassigned_def)
  have e: "\<not> is_int_triple (Scalar SNone)" by (simp add: is_int_triple_def)
  from a b c d e show ?thesis by (intro conjI)
qed

section \<open>The serialised document\<close>

lemma sort_info:
  "sort_key fst [(''name'', v1 :: pyobj), (''version'', v2), (''id'', v3), (''executable'', v4),
      (''mznlib'', v5), (''tags'', v6), (''stdFlags'', v7), (''extraFlags'', v8),
      (''supportsMzn'', v9), (''supportsFzn'', v10), (''needsSolns2Out'', v11),
      (''needsMznExecutable'', v12), (''needsStdlibDir'', v13), (''isGUIApplication'', v14)]
   = [(''executable'', v4), (''extraFlags'', v8), (''id'', v3), (''isGUIApplication'', v14),
      (''mznlib'', v5), (''name'', v1), (''needsMznExecutable'', v12), (''needsSolns2Out'', v11),
      (''needsStdlibDir'', v13), (''stdFlags'', v7), (''supportsFzn'', v10), (''supportsMzn'', v9),
      (''tags'', v6), (''version'', v2)]"
  by (simp add: sort_key_def)

lemma Solver_id_config:
  assumes "holds_config w self c"
  shows "Solver_id w self = Inr (Scalar (SStr (effective_id c)))"
proof -
  from assms obtain r where r: "dicts w self ''_id'' = Some r"
    "case c_id c of None \<Rightarrow> r = None_ref | Some i \<Rightarrow> r \<noteq> None_ref \<and> heap w r = Scalar (SStr i)"
    by (auto simp: holds_config_def split: option.splits)
  from assms have n: "attr_value w self ''name'' = Inr (Scalar (SStr (c_name c)))"
    by (simp add: holds_config_def)
  show ?thesis
  proof (cases "c_id c")
    case None
    then show ?thesis using r n
      by (auto simp: Solver_id_def getattr_raise_stored effective_id_def attr_value_def
          split: sum.splits)
  next
    case (Some i)
    then show ?thesis using r
      by (simp add: Solver_id_set effective_id_def)
  qed
qed

lemma json_value_str: "json_value l (Scalar (SStr x)) = Inr (json_string x)"
  by simp

lemma json_value_bool: "json_value l (Scalar (SBool b)) = Inr (json_bool b)"
  by (simp add: json_bool_def)

lemma json_value_strings: "json_value (Suc 0) (PList (map SStr xs)) = Inr (json_strings xs)"
  by (simp add: json_list_def json_strings_def newline_indent_def comp_def)

lemma json_string_key: "json_string k = [CHR 0x22] @ concat (map json_escape_char k) @ [CHR 0x22]"
  by (simp add: json_string_def)

lemma key_strings:
  "json_string ''executable'' = [CHR 0x22] @ ''executable'' @ [CHR 0x22]"
  "json_string ''extraFlags'' = [CHR 0x22] @ ''extraFlags'' @ [CHR 0x22]"
  "json_string ''id'' = [CHR 0x22] @ ''id'' @ [CHR 0x22]"
  "json_string ''isGUIApplication'' = [CHR 0x22] @ ''isGUIApplication'' @ [CHR 0x22]"
  "json_string ''mznlib'' = [CHR 0x22] @ ''mznlib'' @ [CHR 0x22]"
  "json_string ''name'' = [CHR 0x22] @ ''name'' @ [CHR 0x22]"
  "json_string ''needsMznExecutable'' = [CHR 0x22] @ ''needsMznExecutable'' @ [CHR 0x22]"
  "json_string ''needsSolns2Out'' = [CHR 0x22] @ ''needsSolns2Out'' @ [CHR 0x22]"
  "json_string ''needsStdlibDir'' = [CHR 0x22] @ ''needsStdlibDir'' @ [CHR 0x22]"
  "json_string ''stdFlags'' = [CHR 0x22] @ ''stdFlags'' @ [CHR 0x22]"
  "json_string ''supportsFzn'' = [CHR 0x22] @ ''supportsFzn'' @ [CHR 0x22]"
  "json_string ''supportsMzn'' = [CHR 0x22] @ ''supportsMzn'' @ [CHR 0x22]"
  "json_string ''tags'' = [CHR 0x22] @ ''tags'' @ [CHR 0x22]"
  "json_string ''version'' = [CHR 0x22] @ ''version'' @ [CHR 0x22]"
  by code_simp+

lemma to_json_info_config:
  assumes "holds_config w self c"
  shows "to_json_info w self =
    Inr [(''name'', Scalar (SStr (c_name c))), (''version'', Scalar (SStr (version_text c))),
         (''id'', Scalar (SStr (effective_id c))),
         (''executable'', Scalar (SStr (c_executable c))),
         (''mznlib'', Scalar (SStr (c_mznlib c))),
         (''tags'', PList (map SStr (c_tags c))),
         (''stdFlags'', PList (map SStr (c_stdFlags c))),
         (''extraFlags'', PList (map SStr (c_extraFlags c))),
         (''supportsMzn'', Scalar (SBool (c_supportsMzn c))),
         (''supportsFzn'', Scalar (SBool (c_supportsFzn c))),
         (''needsSolns2Out'', Scalar (SBool (c_needsSolns2Out c))),
         (''needsMznExecutable'', Scalar (SBool (c_needsMznExecutable c))),
         (''needsStdlibDir'', Scalar (SBool (c_needsStdlibDir c))),
         (''isGUIApplication'', Scalar (SBool (c_isGUIApplication c)))]"
  using assms Solver_id_config [OF assms]
  by (simp add: to_json_info_def holds_config_def version_text_def)


lemma to_json_config:
  assumes "holds_config w self c"
  shows "to_json w self = Inr (serialize c)"
  by (simp add: to_json_def to_json_info_config [OF assms] json_dumps_def sort_info
      json_value_str json_value_bool json_value_strings key_strings serialize_def document_def
      newline_indent_def del: json_value.simps)

lemma document_keys:
  "map fst (document c) =
     [''executable'', ''extraFlags'', ''id'', ''isGUIApplication'', ''mznlib'', ''name'',
      ''needsMznExecutable'', ''needsSolns2Out'', ''needsStdlibDir'', ''stdFlags'',
      ''supportsFzn'', ''supportsMzn'', ''tags'', ''version'']"
  by (simp add: document_def)

lemma document_keys_sorted: "sorted (map fst (document c)) \<and> distinct (map fst (document c))"
  unfolding document_keys by simp

text \<open>
  Claim C5. For a configuration with fields of the declared types, \<open>to_json\<close> returns
  (it does not fail) the document of the specification: a JSON object with exactly the
  fourteen keys, in lexicographic order, the version as \<open>"<major>.<minor>.<patch>"\<close>,
  the id the effective identity, one member per line with an indentation of four spaces.
  The text is determined by the field values alone, so serialising an unchanged
  configuration again gives the same bytes.
\<close>

theorem to_json_canonical:
  assumes "holds_config w self c"
  shows "to_json w self = Inr (serialize c)
    \<and> map fst (document c) =
        [''executable'', ''extraFlags'', ''id'', ''isGUIApplication'', ''mznlib'', ''name'',
         ''needsMznExecutable'', ''needsSolns2Out'', ''needsStdlibDir'', ''stdFlags'',
         ''supportsFzn'', ''supportsMzn'', ''tags'', ''version'']
    \<and> sorted (map fst (document c)) \<and> distinct (map fst (document c))
    \<and> (\<forall>w' self'. holds_config w' self' c \<longrightarrow> to_json w' self' = to_json w self)"
  using to_json_config [OF assms] document_keys [of c] document_keys_sorted [of c]
  by (simp add: to_json_config)

lemma ex_holds: "holds_config ex_world 5 ex_config"
  by (simp add: holds_config_def attr_value_def getattr_raise_def ex_config_def ex_defs)

lemma ex_serialize:
  "serialize ex_config =
    ''{'' @ [CHR 0x0A] @
    ''    '' @ [CHR 0x22] @ ''executable'' @ [CHR 0x22] @ '': '' @ [CHR 0x22] @ ''/bin/foo'' @ [CHR 0x22] @ '','' @ [CHR 0x0A] @
    ''    '' @ [CHR 0x22] @ ''extraFlags'' @ [CHR 0x22] @ '': [],'' @ [CHR 0x0A] @
    ''    '' @ [CHR 0x22] @ ''id'' @ [CHR 0x22] @ '': '' @ [CHR 0x22] @ ''org.minizinc.python.foo'' @ [CHR 0x22] @ '','' @ [CHR 0x0A] @
    ''    '' @ [CHR 0x22] @ ''isGUIApplication'' @ [CHR 0x22] @ '': false,'' @ [CHR 0x0A] @
    ''    '' @ [CHR 0x22] @ ''mznlib'' @ [CHR 0x22] @ '': '' @ [CHR 0x22, CHR 0x22] @ '','' @ [CHR 0x0A] @
    ''    '' @ [CHR 0x22] @ ''name'' @ [CHR 0x22] @ '': '' @ [CHR 0x22] @ ''Foo'' @ [CHR 0x22] @ '','' @ [CHR 0x0A] @
    ''    '' @ [CHR 0x22] @ ''needsMznExecutable'' @ [CHR 0x22] @ '': false,'' @ [CHR 0x0A] @
    ''    '' @ [CHR 0x22] @ ''needsSolns2Out'' @ [CHR 0x22] @ '': false,'' @ [CHR 0x0A] @
    ''    '' @ [CHR 0x22] @ ''needsStdlibDir'' @ [CHR 0x22] @ '': false,'' @ [CHR 0x0A] @
    ''    '' @ [CHR 0x22] @ ''stdFlags'' @ [CHR 0x22] @ '': [],'' @ [CHR 0x0A] @
    ''    '' @ [CHR 0x22] @ ''supportsFzn'' @ [CHR 0x22] @ '': true,'' @ [CHR 0x0A] @
    ''    '' @ [CHR 0x22] @ ''supportsMzn'' @ [CHR 0x22] @ '': false,'' @ [CHR 0x0A] @
    ''    '' @ [CHR 0x22] @ ''tags'' @ [CHR 0x22] @ '': [],'' @ [CHR 0x0A] @
    ''    '' @ [CHR 0x22] @ ''version'' @ [CHR 0x22] @ '': '' @ [CHR 0x22] @ ''1.2.3'' @ [CHR 0x22] @ [CHR 0x0A] @
    ''}''"
  by code_simp

theorem to_json_canonical_witness:
  "holds_config ex_world 5 ex_config
   \<and> to_json ex_world 5 = Inr (serialize ex_config)
   \<and> take 18 (serialize ex_config) = ''{'' @ [CHR 0x0A] @ ''    '' @ [CHR 0x22] @ ''executable'' @ [CHR 0x22]
   \<and> sorted (map fst (document ex_config))
   \<and> holds_config (ex_world\<lparr>io_trace := [IoSeek ''x'']\<rparr>) 5 ex_config
   \<and> to_json (ex_world\<lparr>io_trace := [IoSeek ''x'']\<rparr>) 5 = to_json ex_world 5"
proof -
  have h: "holds_config (ex_world\<lparr>io_trace := [IoSeek ''x'']\<rparr>) 5 ex_config"
    by (simp add: holds_config_def attr_value_def getattr_raise_def ex_config_def ex_defs)
  have t: "take 18 (serialize ex_config) = ''{'' @ [CHR 0x0A] @ ''    '' @ [CHR 0x22] @ ''executable'' @ [CHR 0x22]"
    unfolding ex_serialize by simp
  from to_json_canonical [OF ex_holds] h ex_holds t show ?thesis by blast
qed

section \<open>Entering and leaving the scope\<close>

lemma getattr_raise_cong:
  "dicts w1 = dicts w \<Longrightarrow> getattr_raise w1 self k = getattr_raise w self k"
  by (simp add: getattr_raise_def)

lemma attr_value_cong:
  "heap w1 = heap w \<Longrightarrow> dicts w1 = dicts w \<Longrightarrow> attr_value w1 self k = attr_value w self k"
  by (simp add: attr_value_def getattr_raise_cong [of w1 w] cong: sum.case_cong)

lemma Solver_id_cong:
  "heap w1 = heap w \<Longrightarrow> dicts w1 = dicts w \<Longrightarrow> Solver_id w1 self = Solver_id w self"
  by (simp add: Solver_id_def getattr_raise_cong [of w1 w] cong: sum.case_cong if_cong)

lemma info_rest_cong:
  "heap w1 = heap w \<Longrightarrow> dicts w1 = dicts w \<Longrightarrow> info_rest w1 self ks = info_rest w self ks"
  by (induction ks) (simp_all add: attr_value_cong [of w1 w] cong: sum.case_cong)

lemma to_json_cong:
  "heap w1 = heap w \<Longrightarrow> dicts w1 = dicts w \<Longrightarrow> to_json w1 self = to_json w self"
  by (simp add: to_json_def to_json_info_def attr_value_cong [of w1 w] Solver_id_cong [of w1 w]
      info_rest_cong [of w1 w] cong: sum.case_cong)

lemma configuration_enter_ok:
  assumes "dicts w self ''_id'' = Some None_ref"
    and "first_free w ''minizinc_solver_'' ''.msc'' (tmp_names w) = Some (nm, nms)"
    and "to_json w self = Inr js"
    and "\<not> io_fails w (length (io_trace w))" and "\<not> io_fails w (length (io_trace w) + 1)"
    and "\<not> io_fails w (length (io_trace w) + 2)" and "\<not> io_fails w (length (io_trace w) + 3)"
  shows "configuration_enter self w =
     (Inr (next_ref w, Some \<lparr>fpath = tmp_path w ''minizinc_solver_'' ''.msc'' nm, pending = []\<rparr>),
      entered w self (tmp_path w ''minizinc_solver_'' ''.msc'' nm) js nms)"
proof -
  define p where "p = tmp_path w ''minizinc_solver_'' ''.msc'' nm"
  define w1 where "w1 = w\<lparr>tmp_names := nms, io_trace := io_trace w @ [IoCreate p],
      files := (files w)(p \<mapsto> [])\<rparr>"
  have c: "NamedTemporaryFile ''minizinc_solver_'' ''.msc'' w = (Inr \<lparr>fpath = p, pending = []\<rparr>, w1)"
    using assms(2,4) by (simp add: NamedTemporaryFile_def attempt_def p_def w1_def Let_def)
  have j: "to_json w1 self = Inr js"
    using assms(3) to_json_cong [of w1 w self] by (simp add: w1_def)
  show ?thesis
    using assms(1,5,6,7) c j
    by (simp add: configuration_enter_def configuration_yield_def io_bind_def io_pure_def
        io_update_def getattr_raise_stored file_write_def file_flush_def file_seek0_def
        attempt_def set_new_def alloc_def Solver_setattr_id entered_def p_def [symmetric] w1_def
        numeral_3_eq_3)
qed

lemma configuration_enter_set:
  assumes "dicts w self ''_id'' = Some i" and "i \<noteq> None_ref"
  shows "configuration_enter self w = (Inr (i, None), w)"
  using assms
  by (simp add: configuration_enter_def configuration_yield_def io_bind_def io_pure_def
      getattr_raise_stored)

lemma first_free_Some:
  "first_free w pre suf nms = Some (nm, rest) \<Longrightarrow> files w (tmp_path w pre suf nm) = None"
  by (induction nms) (auto split: if_splits)


lemma NamedTemporaryFile_store:
  "NamedTemporaryFile pre suf w = (r, w1) \<Longrightarrow> heap w1 = heap w \<and> dicts w1 = dicts w"
  by (auto simp: NamedTemporaryFile_def attempt_def Let_def split: option.splits if_splits)

lemma file_write_store:
  "file_write f bs w = (r, w1) \<Longrightarrow> heap w1 = heap w \<and> dicts w1 = dicts w"
  by (auto simp: file_write_def attempt_def split: if_splits)

lemma file_flush_store:
  "file_flush f w = (r, w1) \<Longrightarrow> heap w1 = heap w \<and> dicts w1 = dicts w"
  by (auto simp: file_flush_def attempt_def split: if_splits)

lemma file_seek0_store:
  "file_seek0 f w = (r, w1) \<Longrightarrow> heap w1 = heap w \<and> dicts w1 = dicts w"
  by (auto simp: file_seek0_def attempt_def split: if_splits)

lemma io_bind_Inl:
  assumes "io_bind m f w = (Inl e, w2)"
  obtains "m w = (Inl e, w2)"
  | x w1 where "m w = (Inr x, w1)" and "f x w1 = (Inl e, w2)"
  using assms by (auto simp: io_bind_def split: prod.splits sum.splits)

lemma set_id_new_ok:
  "io_update (set_new self ''_id'' v) w =
     (Inr (), w\<lparr>heap := (heap w)(next_ref w := v), next_ref := Suc (next_ref w),
                dicts := (dicts w)(self := (dicts w self)(''_id'' \<mapsto> next_ref w))\<rparr>)"
  by (simp add: io_update_def set_new_def alloc_def Solver_setattr_id)

lemma configuration_yield_after_set:
  "dicts w self ''_id'' = Some r \<Longrightarrow> configuration_yield self file w = (Inr (r, file), w)"
  by (simp add: configuration_yield_def io_bind_def io_pure_def getattr_raise_stored)

lemma io_pure_Inl: "io_pure g w = (Inl e, w1) \<Longrightarrow> w1 = w"
  by (auto simp: io_pure_def split: sum.splits)

lemma io_pure_Inr: "io_pure g w = (Inr x, w1) \<Longrightarrow> w1 = w"
  by (auto simp: io_pure_def split: sum.splits)

lemma configuration_enter_failure:
  assumes "configuration_enter self w = (Inl e, w1)"
  shows "heap w1 = heap w \<and> dicts w1 = dicts w"
proof -
  from assms have a: "io_bind (io_pure (\<lambda>w. getattr_raise w self ''_id'')) (\<lambda>i.
       if i = None_ref then
         io_bind (NamedTemporaryFile ''minizinc_solver_'' ''.msc'') (\<lambda>f.
         io_bind (io_pure (\<lambda>w. to_json w self)) (\<lambda>js.
         io_bind (file_write f (encode js)) (\<lambda>f.
         io_bind (file_flush f) (\<lambda>f.
         io_bind (file_seek0 f) (\<lambda>f.
         io_bind (io_update (set_new self ''_id'' (Scalar (SStr (fpath f))))) (\<lambda>_.
         configuration_yield self (Some f)))))))
       else configuration_yield self None) w = (Inl e, w1)"
    by (simp add: configuration_enter_def)
  show ?thesis
  proof (rule io_bind_Inl [OF a])
    assume "io_pure (\<lambda>w. getattr_raise w self ''_id'') w = (Inl e, w1)"
    then show ?thesis by (auto dest: io_pure_Inl)
  next
    fix i wa
    assume g: "io_pure (\<lambda>w. getattr_raise w self ''_id'') w = (Inr i, wa)"
      and r: "(if i = None_ref then
         io_bind (NamedTemporaryFile ''minizinc_solver_'' ''.msc'') (\<lambda>f.
         io_bind (io_pure (\<lambda>w. to_json w self)) (\<lambda>js.
         io_bind (file_write f (encode js)) (\<lambda>f.
         io_bind (file_flush f) (\<lambda>f.
         io_bind (file_seek0 f) (\<lambda>f.
         io_bind (io_update (set_new self ''_id'' (Scalar (SStr (fpath f))))) (\<lambda>_.
         configuration_yield self (Some f)))))))
       else configuration_yield self None) wa = (Inl e, w1)"
    have wa: "wa = w" using g by (rule io_pure_Inr)
    have gi: "getattr_raise w self ''_id'' = Inr i"
      using g by (auto simp: io_pure_def split: sum.splits)
    show ?thesis
    proof (cases "i = None_ref")
      case False
      then have "configuration_yield self None w = (Inl e, w1)" using r wa by simp
      then show ?thesis using gi
        by (simp add: configuration_yield_def io_bind_def io_pure_def)
    next
      case True
      then have b: "io_bind (NamedTemporaryFile ''minizinc_solver_'' ''.msc'') (\<lambda>f.
         io_bind (io_pure (\<lambda>w. to_json w self)) (\<lambda>js.
         io_bind (file_write f (encode js)) (\<lambda>f.
         io_bind (file_flush f) (\<lambda>f.
         io_bind (file_seek0 f) (\<lambda>f.
         io_bind (io_update (set_new self ''_id'' (Scalar (SStr (fpath f))))) (\<lambda>_.
         configuration_yield self (Some f))))))) w = (Inl e, w1)"
        using r wa by simp
      show ?thesis
      proof (rule io_bind_Inl [OF b])
        assume "NamedTemporaryFile ''minizinc_solver_'' ''.msc'' w = (Inl e, w1)"
        then show ?thesis by (rule NamedTemporaryFile_store)
      next
        fix f0 wb
        assume c: "NamedTemporaryFile ''minizinc_solver_'' ''.msc'' w = (Inr f0, wb)"
          and d: "io_bind (io_pure (\<lambda>w. to_json w self)) (\<lambda>js.
             io_bind (file_write f0 (encode js)) (\<lambda>f.
             io_bind (file_flush f) (\<lambda>f.
             io_bind (file_seek0 f) (\<lambda>f.
             io_bind (io_update (set_new self ''_id'' (Scalar (SStr (fpath f))))) (\<lambda>_.
             configuration_yield self (Some f)))))) wb = (Inl e, w1)"
        have sb: "heap wb = heap w \<and> dicts wb = dicts w" using c by (rule NamedTemporaryFile_store)
        show ?thesis
        proof (rule io_bind_Inl [OF d])
          assume "io_pure (\<lambda>w. to_json w self) wb = (Inl e, w1)"
          then have "w1 = wb" by (rule io_pure_Inl)
          then show ?thesis using sb by simp
        next
          fix js wc
          assume j: "io_pure (\<lambda>w. to_json w self) wb = (Inr js, wc)"
            and k: "io_bind (file_write f0 (encode js)) (\<lambda>f.
               io_bind (file_flush f) (\<lambda>f.
               io_bind (file_seek0 f) (\<lambda>f.
               io_bind (io_update (set_new self ''_id'' (Scalar (SStr (fpath f))))) (\<lambda>_.
               configuration_yield self (Some f))))) wc = (Inl e, w1)"
          have wc: "wc = wb" using j by (rule io_pure_Inr)
          show ?thesis
          proof (rule io_bind_Inl [OF k])
            assume "file_write f0 (encode js) wc = (Inl e, w1)"
            then show ?thesis using file_write_store sb wc by metis
          next
            fix f1 wd
            assume l: "file_write f0 (encode js) wc = (Inr f1, wd)"
              and m: "io_bind (file_flush f1) (\<lambda>f.
                 io_bind (file_seek0 f) (\<lambda>f.
                 io_bind (io_update (set_new self ''_id'' (Scalar (SStr (fpath f))))) (\<lambda>_.
                 configuration_yield self (Some f)))) wd = (Inl e, w1)"
            have sd: "heap wd = heap w \<and> dicts wd = dicts w"
              using file_write_store [OF l] sb wc by simp
            show ?thesis
            proof (rule io_bind_Inl [OF m])
              assume "file_flush f1 wd = (Inl e, w1)"
              then show ?thesis using file_flush_store sd by metis
            next
              fix f2 we
              assume n: "file_flush f1 wd = (Inr f2, we)"
                and o: "io_bind (file_seek0 f2) (\<lambda>f.
                   io_bind (io_update (set_new self ''_id'' (Scalar (SStr (fpath f))))) (\<lambda>_.
                   configuration_yield self (Some f))) we = (Inl e, w1)"
              have se: "heap we = heap w \<and> dicts we = dicts w"
                using file_flush_store [OF n] sd by simp
              show ?thesis
              proof (rule io_bind_Inl [OF o])
                assume "file_seek0 f2 we = (Inl e, w1)"
                then show ?thesis using file_seek0_store se by metis
              next
                fix f3 wf
                assume "file_seek0 f2 we = (Inr f3, wf)"
                  and q: "io_bind (io_update (set_new self ''_id'' (Scalar (SStr (fpath f3))))) (\<lambda>_.
                     configuration_yield self (Some f3)) wf = (Inl e, w1)"
                have False
                  using q by (simp add: io_bind_def set_id_new_ok configuration_yield_after_set)
                then show ?thesis ..
              qed
            qed
          qed
        qed
      qed
    qed
  qed
qed

lemma configuration_enter_refused:
  assumes "dicts w self ''_id'' = Some None_ref"
    and "first_free w ''minizinc_solver_'' ''.msc'' (tmp_names w) = Some (nm, nms)"
    and "to_json w self = Inr js"
    and "io_fails w (length (io_trace w)) \<or> io_fails w (length (io_trace w) + 1)
         \<or> io_fails w (length (io_trace w) + 2)"
  shows "fst (configuration_enter self w) = Inl OSError"
proof (cases "io_fails w (length (io_trace w))")
  case True
  then have "NamedTemporaryFile ''minizinc_solver_'' ''.msc'' w
      = (Inl OSError, w\<lparr>tmp_names := nms, io_trace := io_trace w
           @ [IoCreate (tmp_path w ''minizinc_solver_'' ''.msc'' nm)]\<rparr>)"
    using assms(2) by (simp add: NamedTemporaryFile_def attempt_def Let_def)
  then show ?thesis using assms(1)
    by (simp add: configuration_enter_def io_bind_def io_pure_def getattr_raise_stored)
next
  case False
  define p where "p = tmp_path w ''minizinc_solver_'' ''.msc'' nm"
  define w1 where "w1 = w\<lparr>tmp_names := nms, io_trace := io_trace w @ [IoCreate p],
      files := (files w)(p \<mapsto> [])\<rparr>"
  have c: "NamedTemporaryFile ''minizinc_solver_'' ''.msc'' w = (Inr \<lparr>fpath = p, pending = []\<rparr>, w1)"
    using assms(2) False by (simp add: NamedTemporaryFile_def attempt_def p_def w1_def Let_def)
  have j: "to_json w1 self = Inr js"
    using assms(3) to_json_cong [of w1 w self] by (simp add: w1_def)
  have f: "io_fails w (Suc (length (io_trace w))) \<or> io_fails w (Suc (Suc (length (io_trace w))))"
    using assms(4) False by simp
  show ?thesis
    using assms(1) c j f
    by (auto simp: configuration_enter_def io_bind_def io_pure_def
        getattr_raise_stored file_write_def file_flush_def attempt_def w1_def)
qed

lemma configuration_enter_no_name:
  assumes "dicts w self ''_id'' = Some None_ref"
    and "first_free w ''minizinc_solver_'' ''.msc'' (tmp_names w) = None"
  shows "fst (configuration_enter self w) = Inl FileExistsError"
  using assms
  by (simp add: configuration_enter_def io_bind_def io_pure_def getattr_raise_stored
      NamedTemporaryFile_def)

lemma with_configuration_enter_fails:
  "configuration_enter self w = (Inl e, w1) \<Longrightarrow> with_configuration self body w = (Inl e, w1)"
  by (simp add: with_configuration_def)

text \<open>
  Claim C6. Entered with the identity unset, a scoped materialisation that fails passes
  its error on to the caller without running the body, and leaves the instance
  dictionaries as they were, so the identity is still unset and does not name the file.
  When no temporary name is free the error is \<open>FileExistsError\<close> (a subclass of
  \<open>OSError\<close>); when creating, writing or flushing is refused it is \<open>OSError\<close>.
\<close>

theorem configuration_failure_keeps_identity_unset:
  assumes "dicts w self ''_id'' = Some None_ref"
  shows "(\<forall>e w1. configuration_enter self w = (Inl e, w1)
            \<longrightarrow> with_configuration self body w = (Inl e, w1)
              \<and> dicts w1 = dicts w \<and> dicts w1 self ''_id'' = Some None_ref)
    \<and> (first_free w ''minizinc_solver_'' ''.msc'' (tmp_names w) = None
          \<longrightarrow> fst (configuration_enter self w) = Inl FileExistsError)
    \<and> (\<forall>nm nms js. first_free w ''minizinc_solver_'' ''.msc'' (tmp_names w) = Some (nm, nms)
            \<and> to_json w self = Inr js
            \<and> (io_fails w (length (io_trace w)) \<or> io_fails w (length (io_trace w) + 1)
                 \<or> io_fails w (length (io_trace w) + 2))
          \<longrightarrow> fst (configuration_enter self w) = Inl OSError)"
proof (intro conjI allI impI)
  fix e w1
  assume a: "configuration_enter self w = (Inl e, w1)"
  then show "with_configuration self body w = (Inl e, w1)"
    by (rule with_configuration_enter_fails)
  from configuration_enter_failure [OF a] show "dicts w1 = dicts w" by simp
  then show "dicts w1 self ''_id'' = Some None_ref" using assms by simp
next
  assume "first_free w ''minizinc_solver_'' ''.msc'' (tmp_names w) = None"
  with assms show "fst (configuration_enter self w) = Inl FileExistsError"
    by (rule configuration_enter_no_name)
next
  fix nm nms js
  assume a: "first_free w ''minizinc_solver_'' ''.msc'' (tmp_names w) = Some (nm, nms)
            \<and> to_json w self = Inr js
            \<and> (io_fails w (length (io_trace w)) \<or> io_fails w (length (io_trace w) + 1)
                 \<or> io_fails w (length (io_trace w) + 2))"
  then show "fst (configuration_enter self w) = Inl OSError"
    using configuration_enter_refused [OF assms, of nm nms js] by blast
qed

lemma ex_first_free:
  "first_free ex_world ''minizinc_solver_'' ''.msc'' (tmp_names ex_world) = Some (''k3x9_q2a'', [])"
  "first_free ex_world_full ''minizinc_solver_'' ''.msc'' (tmp_names ex_world_full) = Some (''k3x9_q2a'', [])"
  by (simp_all add: ex_defs ex_world_full_def tmp_path_def)

lemma ex_full_holds: "holds_config ex_world_full 5 ex_config"
  by (simp add: holds_config_def attr_value_def getattr_raise_def ex_config_def ex_defs ex_world_full_def)

theorem configuration_failure_keeps_identity_unset_witness:
  "dicts ex_world_full 5 ''_id'' = Some None_ref
   \<and> io_fails ex_world_full (length (io_trace ex_world_full) + 1)
   \<and> fst (configuration_enter 5 ex_world_full) = Inl OSError
   \<and> fst (with_configuration 5 ex_body_ok ex_world_full) = Inl OSError
   \<and> dicts (snd (with_configuration 5 ex_body_ok ex_world_full)) 5 ''_id'' = Some None_ref"
proof -
  have h: "dicts ex_world_full 5 ''_id'' = Some None_ref"
    "io_fails ex_world_full (length (io_trace ex_world_full) + 1)"
    by (simp_all add: ex_defs ex_world_full_def)
  have j: "to_json ex_world_full 5 = Inr (serialize ex_config)"
    by (rule to_json_config [OF ex_full_holds])
  note t = configuration_failure_keeps_identity_unset [OF h(1), of ex_body_ok]
  have e: "fst (configuration_enter 5 ex_world_full) = Inl OSError"
    using t ex_first_free(2) j h(2) by blast
  then have "configuration_enter 5 ex_world_full
      = (Inl OSError, snd (configuration_enter 5 ex_world_full))"
    by (metis prod.collapse)
  with t have "with_configuration 5 ex_body_ok ex_world_full
        = (Inl OSError, snd (configuration_enter 5 ex_world_full))
      \<and> dicts (snd (configuration_enter 5 ex_world_full)) 5 ''_id'' = Some None_ref"
    by blast
  with h e show ?thesis by simp
qed


lemma holds_config_unset:
  "holds_config w self c \<Longrightarrow> c_id c = None \<Longrightarrow> dicts w self ''_id'' = Some None_ref"
  by (auto simp: holds_config_def split: option.splits)

lemma entered_facts:
  "files (entered w self p js nms) p = Some (encode js)"
  "q \<noteq> p \<Longrightarrow> files (entered w self p js nms) q = files w q"
  "dicts (entered w self p js nms) self ''_id'' = Some (next_ref w)"
  "heap (entered w self p js nms) (next_ref w) = Scalar (SStr p)"
  "io_trace (entered w self p js nms) = io_trace w @ [IoCreate p, IoWrite p, IoFlush p, IoSeek p]"
  by (simp_all add: entered_def)

text \<open>
  Claim C3. Entered with the identity unset (on a well-formed store, with a free temporary
  name and no I/O operation refused), the scoped materialisation creates a file that did
  not exist before, named directory, \<open>minizinc_solver_\<close>, random part, \<open>.msc\<close>; the
  file holds the encoded serialised configuration, nothing is left in the buffer, no other
  file is touched; the identity is a string object holding the path, and that object is
  what is yielded. Entered with an identity already set, it yields that identity and
  changes nothing.
\<close>

theorem configuration_materialises:
  "(heap_ok w \<and> holds_config w self c \<and> c_id c = None
     \<and> first_free w ''minizinc_solver_'' ''.msc'' (tmp_names w) = Some (nm, nms)
     \<and> \<not> io_fails w (length (io_trace w)) \<and> \<not> io_fails w (length (io_trace w) + 1)
     \<and> \<not> io_fails w (length (io_trace w) + 2) \<and> \<not> io_fails w (length (io_trace w) + 3)
    \<longrightarrow> (\<exists>y f w'. configuration_enter self w = (Inr (y, Some f), w')
          \<and> fpath f = tmpdir w @ ''/'' @ ''minizinc_solver_'' @ nm @ ''.msc''
          \<and> files w (fpath f) = None
          \<and> files w' (fpath f) = Some (encode (serialize c))
          \<and> to_json w self = Inr (serialize c)
          \<and> pending f = []
          \<and> (\<forall>q. q \<noteq> fpath f \<longrightarrow> files w' q = files w q)
          \<and> io_trace w' = io_trace w
                @ [IoCreate (fpath f), IoWrite (fpath f), IoFlush (fpath f), IoSeek (fpath f)]
          \<and> dicts w' self ''_id'' = Some y
          \<and> heap w' y = Scalar (SStr (fpath f))
          \<and> Solver_id w' self = Inr (Scalar (SStr (fpath f)))))
   \<and> (\<forall>i. dicts w self ''_id'' = Some i \<and> i \<noteq> None_ref
        \<longrightarrow> configuration_enter self w = (Inr (i, None), w))"
proof (intro conjI allI impI)
  assume a: "heap_ok w \<and> holds_config w self c \<and> c_id c = None
     \<and> first_free w ''minizinc_solver_'' ''.msc'' (tmp_names w) = Some (nm, nms)
     \<and> \<not> io_fails w (length (io_trace w)) \<and> \<not> io_fails w (length (io_trace w) + 1)
     \<and> \<not> io_fails w (length (io_trace w) + 2) \<and> \<not> io_fails w (length (io_trace w) + 3)"
  define p where "p = tmp_path w ''minizinc_solver_'' ''.msc'' nm"
  define f where "f = \<lparr>fpath = p, pending = []\<rparr>"
  define w' where "w' = entered w self p (serialize c) nms"
  have u: "dicts w self ''_id'' = Some None_ref"
    using a holds_config_unset by blast
  have j: "to_json w self = Inr (serialize c)"
    using a to_json_config by blast
  have e: "configuration_enter self w = (Inr (next_ref w, Some f), w')"
    unfolding f_def w'_def p_def using a by (intro configuration_enter_ok [OF u _ j]) simp_all
  have fr: "files w p = None"
    unfolding p_def using a first_free_Some by blast
  have nz: "next_ref w \<noteq> None_ref"
    using a by (simp add: heap_ok_def None_ref_def)
  have i: "Solver_id w' self = Inr (Scalar (SStr p))"
    using Solver_id_set [of w' self "next_ref w"] nz
    by (simp add: w'_def entered_facts)
  have fp: "fpath f = p" "pending f = []" by (simp_all add: f_def)
  have b: "fpath f = tmpdir w @ ''/'' @ ''minizinc_solver_'' @ nm @ ''.msc''
          \<and> files w (fpath f) = None
          \<and> files w' (fpath f) = Some (encode (serialize c))
          \<and> to_json w self = Inr (serialize c)
          \<and> pending f = []
          \<and> (\<forall>q. q \<noteq> fpath f \<longrightarrow> files w' q = files w q)
          \<and> io_trace w' = io_trace w
                @ [IoCreate (fpath f), IoWrite (fpath f), IoFlush (fpath f), IoSeek (fpath f)]
          \<and> dicts w' self ''_id'' = Some (next_ref w)
          \<and> heap w' (next_ref w) = Scalar (SStr (fpath f))
          \<and> Solver_id w' self = Inr (Scalar (SStr (fpath f)))"
    unfolding fp using fr j i by (simp add: w'_def entered_facts) (simp add: p_def tmp_path_def)
  show "\<exists>y f w'. configuration_enter self w = (Inr (y, Some f), w')
          \<and> fpath f = tmpdir w @ ''/'' @ ''minizinc_solver_'' @ nm @ ''.msc''
          \<and> files w (fpath f) = None
          \<and> files w' (fpath f) = Some (encode (serialize c))
          \<and> to_json w self = Inr (serialize c)
          \<and> pending f = []
          \<and> (\<forall>q. q \<noteq> fpath f \<longrightarrow> files w' q = files w q)
          \<and> io_trace w' = io_trace w
                @ [IoCreate (fpath f), IoWrite (fpath f), IoFlush (fpath f), IoSeek (fpath f)]
          \<and> dicts w' self ''_id'' = Some y
          \<and> heap w' y = Scalar (SStr (fpath f))
          \<and> Solver_id w' self = Inr (Scalar (SStr (fpath f)))"
    by (rule exI [where x = "next_ref w"], rule exI [where x = f], rule exI [where x = w'])
       (rule conjI [OF e b])
next
  fix i
  assume "dicts w self ''_id'' = Some i \<and> i \<noteq> None_ref"
  then show "configuration_enter self w = (Inr (i, None), w)"
    by (simp add: configuration_enter_set)
qed


lemma ex_heap_ok: "heap_ok ex_world"
  by (simp add: heap_ok_def ex_defs List_str_ref_def)

lemma ex_no_faults: "\<not> io_fails ex_world n"
  by (simp add: ex_defs)

theorem configuration_materialises_witness:
  "heap_ok ex_world \<and> holds_config ex_world 5 ex_config \<and> c_id ex_config = None
   \<and> (\<exists>y f w'. configuration_enter 5 ex_world = (Inr (y, Some f), w')
         \<and> fpath f = ''/tmp/minizinc_solver_k3x9_q2a.msc''
         \<and> files ex_world (fpath f) = None
         \<and> files w' (fpath f) = Some (encode (serialize ex_config))
         \<and> Solver_id w' 5 = Inr (Scalar (SStr (fpath f))))
   \<and> dicts ex_world_id 5 ''_id'' = Some 21
   \<and> configuration_enter 5 ex_world_id = (Inr (21, None), ex_world_id)"
proof -
  have c: "c_id ex_config = None" by (simp add: ex_config_def)
  have i: "dicts ex_world_id 5 ''_id'' = Some 21 \<and> 21 \<noteq> None_ref" by (simp add: ex_defs)
  note t = configuration_materialises [of ex_world 5 ex_config "''k3x9_q2a''" "[]"]
  from t ex_heap_ok ex_holds c ex_first_free(1) ex_no_faults
  obtain y f w' where r: "configuration_enter 5 ex_world = (Inr (y, Some f), w')"
    "fpath f = tmpdir ex_world @ ''/'' @ ''minizinc_solver_'' @ ''k3x9_q2a'' @ ''.msc''"
    "files ex_world (fpath f) = None"
    "files w' (fpath f) = Some (encode (serialize ex_config))"
    "Solver_id w' 5 = Inr (Scalar (SStr (fpath f)))"
    by blast
  have p: "fpath f = ''/tmp/minizinc_solver_k3x9_q2a.msc''"
    using r(2) by (simp add: ex_defs)
  have a: "\<exists>y f w'. configuration_enter 5 ex_world = (Inr (y, Some f), w')
         \<and> fpath f = ''/tmp/minizinc_solver_k3x9_q2a.msc''
         \<and> files ex_world (fpath f) = None
         \<and> files w' (fpath f) = Some (encode (serialize ex_config))
         \<and> Solver_id w' 5 = Inr (Scalar (SStr (fpath f)))"
    using r(1) p r(3,4,5) by (intro exI conjI)
  have b: "configuration_enter 5 ex_world_id = (Inr (21, None), ex_world_id)"
    using configuration_materialises [of ex_world_id 5] i by blast
  from ex_heap_ok ex_holds c a i b show ?thesis by (intro conjI) simp_all
qed












end
